theory Spec2Isabelle
  imports Main
begin

section \<open>Python strings\<close>

text \<open>
  The string operations that \<^verbatim>\<open>litestar/_signature/model.py\<close> applies to keys and
  messages, on \<open>string\<close> (a list of characters).
\<close>

definition startswith :: "string \<Rightarrow> string \<Rightarrow> bool" where
  \<comment> \<open>\<^verbatim>\<open>s.startswith(p)\<close>\<close>
  "startswith s p = (take (length p) s = p)"

fun join :: "string \<Rightarrow> string list \<Rightarrow> string" where
  \<comment> \<open>\<^verbatim>\<open>sep.join(xs)\<close>\<close>
  "join sep [] = []"
| "join sep [x] = x"
| "join sep (x # y # ys) = x @ sep @ join sep (y # ys)"

fun split_first :: "string \<Rightarrow> string \<Rightarrow> string" where
  \<comment> \<open>\<^verbatim>\<open>s.split(sep)[0]\<close> for a non-empty separator: the text before its first occurrence,
      all of \<open>s\<close> when it does not occur\<close>
  "split_first sep [] = []"
| "split_first sep (c # cs) =
     (if startswith (c # cs) sep then [] else c # split_first sep cs)"

function replace_with_empty :: "string \<Rightarrow> string \<Rightarrow> string" where
  \<comment> \<open>\<^verbatim>\<open>s.replace(old, "")\<close>: every occurrence of \<open>old\<close>, found from the left and not
      overlapping, is removed\<close>
  "replace_with_empty old [] = []"
| "replace_with_empty old (c # cs) =
     (if old \<noteq> [] \<and> startswith (c # cs) old
      then replace_with_empty old (drop (length old) (c # cs))
      else c # replace_with_empty old cs)"
  by pat_completeness auto
termination
  by (relation "measure (\<lambda>(old, s). length s)") (auto simp: neq_Nil_conv)

definition occurs_at :: "string \<Rightarrow> string \<Rightarrow> nat \<Rightarrow> bool" where
  \<comment> \<open>\<open>sep\<close> occurs in \<open>s\<close> at index \<open>i\<close>\<close>
  "occurs_at sep s i = (i + length sep \<le> length s \<and> take (length sep) (drop i s) = sep)"

section \<open>Data model\<close>

datatype ParamType = PATH | QUERY | COOKIE | HEADER

datatype source_tag = Body | Param ParamType

text \<open>\<^verbatim>\<open>ErrorMessage\<close>: \<open>key\<close> and \<open>source\<close> are \<^verbatim>\<open>NotRequired\<close>, so each may be absent.\<close>

record ErrorMessage =
  key :: "string option"
  message :: string
  source :: "source_tag option"

text \<open>Python values, as far as the module inspects them (\<^verbatim>\<open>None\<close>, truthiness).\<close>

datatype pyval =
    PNone
  | PBool bool
  | PInt int
  | PStr string
  | PList "pyval list"
  | PDict "(string \<times> pyval) list"

fun truthy :: "pyval \<Rightarrow> bool" where
  "truthy PNone = False"
| "truthy (PBool b) = b"
| "truthy (PInt i) = (i \<noteq> 0)"
| "truthy (PStr s) = (s \<noteq> [])"
| "truthy (PList xs) = (xs \<noteq> [])"
| "truthy (PDict d) = (d \<noteq> [])"

text \<open>
  Type annotations. \<open>OptionalT\<close>, \<open>UnionT\<close> and \<open>AnnotatedT\<close> stand for the
  subscriptions \<^verbatim>\<open>Optional[t]\<close>, \<^verbatim>\<open>Union[tuple(ts)]\<close> and \<^verbatim>\<open>Annotated[t, meta]\<close>
  that the module hands to \<^verbatim>\<open>typing\<close>; they record the members handed over, and
  what \<^verbatim>\<open>typing\<close> itself does with a subscription (flattening, removal of duplicates)
  is the standard library's and not modelled. A \<^verbatim>\<open>msgspec.Meta\<close> object is represented
  by a dict.
\<close>

datatype ann =
    AnyT
  | NoneT
  | ClassT string
  | OptionalT ann
  | UnionT "ann list"
  | AnnotatedT ann "(string \<times> pyval) list"

text \<open>
  \<^verbatim>\<open>KwargDefinition\<close> and its subclasses. \<^verbatim>\<open>ParameterKwarg\<close> has the attributes
  \<^verbatim>\<open>header\<close> and \<^verbatim>\<open>cookie\<close> (a string or \<^verbatim>\<open>None\<close>); the last component holds the
  other dataclass attributes. \<^verbatim>\<open>DependencyKwarg\<close> is not a \<^verbatim>\<open>KwargDefinition\<close>.
\<close>

datatype kwarg_def =
    ParameterKwarg (header: "string option") (cookie: "string option")
                   (attrs: "(string \<times> pyval) list")
  | BodyKwarg (attrs: "(string \<times> pyval) list")
  | DependencyKwarg

definition str_truthy :: "string option \<Rightarrow> bool" where
  \<comment> \<open>truth value of a \<^verbatim>\<open>str | None\<close> attribute\<close>
  "str_truthy s = (case s of None \<Rightarrow> False | Some t \<Rightarrow> t \<noteq> [])"

datatype field_definition =
  FieldDefinition
    (fd_name: string)
    (fd_annotation: ann)
    (inner_types: "field_definition list")
    (is_union: bool)
    (is_optional: bool)
    (kwarg_definition: "kwarg_def option")
    (has_default: bool)
    (fd_default: pyval)

text \<open>
  One entry of \<^verbatim>\<open>ExtendedMsgSpecValidationError.errors\<close>: the location path under
  \<^verbatim>\<open>"loc"\<close>, whose items are strings or integers, and the text under \<^verbatim>\<open>"msg"\<close>.
\<close>

datatype loc_item = LocStr string | LocInt int

record sub_error =
  loc :: "loc_item list"
  msg :: string

text \<open>
  Exceptions. \<open>ValidationError\<close> is \<^verbatim>\<open>msgspec.ValidationError\<close> with the text
  \<^verbatim>\<open>str\<close> gives for it, \<open>ExtendedMsgSpecValidationError\<close> its subclass carrying
  sub-errors; \<open>OtherException\<close> is an exception of any other class.
\<close>

datatype exn =
    ValidationException (detail: string) (extra: "ErrorMessage list")
  | InternalServerException
  | ExtendedMsgSpecValidationError "sub_error list"
  | ValidationError string
  | IndexError
  | TypeError
  | KeyError string
  | OtherException string

definition is_request_exception :: "exn \<Rightarrow> bool" where
  \<comment> \<open>one of the two exceptions that \<^verbatim>\<open>_create_exception\<close> returns\<close>
  "is_request_exception x =
     (case x of ValidationException d ms \<Rightarrow> True | InternalServerException \<Rightarrow> True | _ \<Rightarrow> False)"

definition is_decode_failure :: "exn \<Rightarrow> bool" where
  \<comment> \<open>an instance of \<^verbatim>\<open>msgspec.ValidationError\<close>\<close>
  "is_decode_failure x =
     (case x of
        ValidationError e \<Rightarrow> True
      | ExtendedMsgSpecValidationError errs \<Rightarrow> True
      | _ \<Rightarrow> False)"

text \<open>
  The class attributes of a signature model: the struct fields given to
  \<^verbatim>\<open>defstruct\<close> (name, annotation, default; \<open>None\<close> is \<^verbatim>\<open>NODEFAULT\<close>),
  \<^verbatim>\<open>_dependency_name_set\<close>, \<^verbatim>\<open>_fields\<close> (a dict from parameter name to field
  definition, in insertion order) and \<^verbatim>\<open>_return_annotation\<close>.
\<close>

record signature_model =
  struct_name :: string
  struct_fields :: "(string \<times> ann \<times> pyval option) list"
  dependency_name_set :: "string set"
  model_fields :: "(string \<times> field_definition) list"
  return_annotation :: ann

text \<open>
  What the module reads from an \<^verbatim>\<open>ASGIConnection\<close>: \<open>http_method\<close> (the attribute \<^verbatim>\<open>method\<close>) is \<open>None\<close> when the
  connection has no such attribute, \<open>url\<close> is the text of \<^verbatim>\<open>connection.url\<close>,
  \<open>query_params\<close> lists the names of the query parameters, and
  \<open>default_deserializer\<close> is \<^verbatim>\<open>connection.route_handler.default_deserializer\<close>.
\<close>

type_synonym pydict = "(string \<times> pyval) list"

type_synonym hook = "ann \<Rightarrow> pyval \<Rightarrow> exn + pyval"

record connection =
  http_method :: "string option"
  url :: string
  query_params :: "string list"
  default_deserializer :: hook

text \<open>The \<^verbatim>\<open>_decoder\<close> attribute of the type objects: \<open>None\<close> where a type has none.\<close>

type_synonym decoder_store = "ann \<Rightarrow> hook option"

text \<open>A type decoder is a pair of a predicate on types and a decoder function.\<close>

type_synonym type_decoder = "(ann \<Rightarrow> bool) \<times> hook"

record parsed_signature =
  parameters :: "(string \<times> field_definition) list"
  return_type :: field_definition

text \<open>
  The functions and constants that the module takes from \<^verbatim>\<open>msgspec\<close>, from the
  interpreter and from other modules of the package (\<^verbatim>\<open>litestar._signature.utils\<close>,
  \<^verbatim>\<open>litestar.utils\<close>, \<^verbatim>\<open>litestar.enums\<close>). They are parameters of the model:
  \<^item> \<open>WEBSOCKET\<close>: the text of \<^verbatim>\<open>ScopeType.WEBSOCKET\<close> inside an f-string;
  \<^item> \<open>isinstance\<close>, and \<open>call_type t v\<close> for the call \<^verbatim>\<open>t(v)\<close> of a type object;
  \<^item> \<open>set_decoder t d st\<close>: \<^verbatim>\<open>setattr(t, "_decoder", d)\<close> on the type object \<open>t\<close>, from
    the store \<open>st\<close> of these attributes: it raises on a type that takes no
    attributes, and otherwise returns the store in which \<open>t\<close> and the types that
    inherit from it carry \<open>d\<close>;
  \<^item> \<open>is_class_and_subclass\<close>, \<open>normalize_annotation\<close>, \<open>get_decoder_for_type\<close>,
    \<open>validate_signature_dependencies\<close>, \<open>simple_asdict\<close> (called with
    \<^verbatim>\<open>exclude_empty=True\<close>): the helpers of the same names;
  \<^item> \<open>hasattr_Meta k\<close>: \<^verbatim>\<open>hasattr(Meta, k)\<close>; \<open>Meta\<close>: the constructor
    \<^verbatim>\<open>Meta(**meta_kwargs)\<close>, the object represented by a dict;
  \<^item> \<open>convert_struct hook kwargs cls\<close>: \<^verbatim>\<open>convert(kwargs, cls, strict=False,
    dec_hook=hook, str_keys=True)\<close>, the struct instance represented by the dict
    \<^verbatim>\<open>asdict\<close> gives for it;
  \<^item> \<open>convert_value hook v t\<close>: the same call on one value and its annotation,
    \<open>None\<close> when it returns and otherwise the text \<^verbatim>\<open>str\<close> gives for the exception.
\<close>

record env =
  WEBSOCKET :: string
  isinstance :: "pyval \<Rightarrow> ann \<Rightarrow> bool"
  call_type :: hook
  set_decoder :: "ann \<Rightarrow> hook \<Rightarrow> decoder_store \<Rightarrow> exn + decoder_store"
  is_class_and_subclass :: "ann \<Rightarrow> ann list \<Rightarrow> bool"
  normalize_annotation :: "field_definition \<Rightarrow> bool \<Rightarrow> ann"
  get_decoder_for_type :: "ann \<Rightarrow> type_decoder list \<Rightarrow> hook option"
  validate_signature_dependencies ::
    "string set \<Rightarrow> string \<Rightarrow> parsed_signature \<Rightarrow> exn + string set"
  simple_asdict :: "kwarg_def \<Rightarrow> pydict"
  hasattr_Meta :: "string \<Rightarrow> bool"
  Meta :: "pydict \<Rightarrow> exn + pydict"
  convert_struct :: "hook \<Rightarrow> pydict \<Rightarrow> signature_model \<Rightarrow> exn + pydict"
  convert_value :: "hook \<Rightarrow> pyval \<Rightarrow> ann \<Rightarrow> string option"

section \<open>The error projector\<close>

definition build_error_message ::
  "signature_model \<Rightarrow> string list \<Rightarrow> string \<Rightarrow> connection \<Rightarrow> ErrorMessage" where
  "build_error_message cls keys exc_msg conn =
     (let msg = \<lparr>key = None, message = split_first '' - '' exc_msg, source = None\<rparr>
      in case keys of
           [] \<Rightarrow> msg
         | k0 # ks \<Rightarrow>
             (let k = join ''.'' keys; msg = msg\<lparr>key := Some k\<rparr>
              in if startswith k0 ''data''
                 then msg\<lparr>key := Some (replace_with_empty ''data.'' k), source := Some Body\<rparr>
                 else if k \<in> set (query_params conn)
                 then msg\<lparr>source := Some (Param QUERY)\<rparr>
                 else (case map_of (model_fields cls) k of
                         Some fd \<Rightarrow>
                           (case kwarg_definition fd of
                              Some (ParameterKwarg h c a) \<Rightarrow>
                                if str_truthy c then msg\<lparr>source := Some (Param COOKIE)\<rparr>
                                else if str_truthy h then msg\<lparr>source := Some (Param HEADER)\<rparr>
                                else msg\<lparr>source := Some (Param QUERY)\<rparr>
                            | _ \<Rightarrow> msg)
                       | None \<Rightarrow> msg)))"

definition is_client_error :: "signature_model \<Rightarrow> ErrorMessage \<Rightarrow> bool" where
  \<comment> \<open>the condition of the comprehension in \<^verbatim>\<open>_create_exception\<close>\<close>
  "is_client_error cls m =
     (case key m of Some k \<Rightarrow> k \<notin> dependency_name_set cls | None \<Rightarrow> True)"

definition create_exception ::
  "string \<Rightarrow> signature_model \<Rightarrow> connection \<Rightarrow> ErrorMessage list \<Rightarrow> exn" where
  \<comment> \<open>the first argument is the text of \<^verbatim>\<open>ScopeType.WEBSOCKET\<close> in an f-string\<close>
  "create_exception websocket cls conn messages =
     (let meth = (case http_method conn of Some m \<Rightarrow> m | None \<Rightarrow> websocket);
          client_errors = filter (is_client_error cls) messages
      in if client_errors \<noteq> []
         then ValidationException
                (''Validation failed for '' @ meth @ '' '' @ url conn) client_errors
         else InternalServerException)"

section \<open>The decoding hook\<close>

definition deserializer ::
  "(pyval \<Rightarrow> ann \<Rightarrow> bool) \<Rightarrow> decoder_store \<Rightarrow> ann \<Rightarrow> pyval \<Rightarrow> hook \<Rightarrow> exn + pyval" where
  "deserializer isinst decoder_attr target_type v default_deser =
     (if isinst v target_type then Inr v
      else case decoder_attr target_type of
             Some decoder \<Rightarrow> decoder target_type v
           | None \<Rightarrow> default_deser target_type v)"

section \<open>Coercion and its failures\<close>

text \<open>
  \<^verbatim>\<open>ERR_RE\<close> is a backquote, a dollar sign, a dot, a group of one or more characters
  other than a newline, a backquote, and the end of the text, where the end may also be
  taken before one final newline. \<^verbatim>\<open>search\<close> returns the leftmost match; the result
  here is its group 1.
\<close>

definition ERR_RE_head :: string where
  "ERR_RE_head = [CHR 0x60, CHR 0x24, CHR 0x2E]"

definition ERR_RE_match_here :: "string \<Rightarrow> string option" where
  "ERR_RE_match_here s =
     (let g = butlast (drop 3 s)
      in if startswith s ERR_RE_head \<and> 5 \<le> length s \<and> last s = CHR 0x60
            \<and> CHR 0x0A \<notin> set g
         then Some g else None)"

fun ERR_RE_scan :: "string \<Rightarrow> string option" where
  "ERR_RE_scan [] = None"
| "ERR_RE_scan (c # cs) =
     (case ERR_RE_match_here (c # cs) of Some g \<Rightarrow> Some g | None \<Rightarrow> ERR_RE_scan cs)"

definition ERR_RE_search :: "string \<Rightarrow> string option" where
  "ERR_RE_search text =
     ERR_RE_scan (if text \<noteq> [] \<and> last text = CHR 0x0A then butlast text else text)"

function str_nat :: "nat \<Rightarrow> string" where
  "str_nat n =
     (if n < 10 then [char_of (48 + n)]
      else str_nat (n div 10) @ [char_of (48 + n mod 10)])"
  by pat_completeness auto
termination
  by (relation "measure id") auto

definition str_loc :: "loc_item \<Rightarrow> string" where
  \<comment> \<open>\<^verbatim>\<open>str(loc)\<close>\<close>
  "str_loc l =
     (case l of
        LocStr s \<Rightarrow> s
      | LocInt i \<Rightarrow> if i < 0 then CHR 0x2D # str_nat (nat (- i)) else str_nat (nat i))"

definition str_KeyError :: "string \<Rightarrow> string" where
  \<comment> \<open>\<^verbatim>\<open>str(KeyError(k))\<close> is \<^verbatim>\<open>repr(k)\<close>: the name between quotes, for a name that is a
      Python identifier\<close>
  "str_KeyError k = CHR 0x27 # k @ [CHR 0x27]"

definition annotations :: "signature_model \<Rightarrow> (string \<times> ann) list" where
  \<comment> \<open>\<^verbatim>\<open>cls.__annotations__\<close>\<close>
  "annotations cls = map (\<lambda>(n, a, d). (n, a)) (struct_fields cls)"

text \<open>
  \<^verbatim>\<open>_collect_errors\<close>: each caught exception is represented by the text \<^verbatim>\<open>str\<close> gives
  for it, which is all that the caller reads.
\<close>

definition collect_field :: "env \<Rightarrow> signature_model \<Rightarrow> hook \<Rightarrow> pydict \<Rightarrow> string \<Rightarrow> string option" where
  \<comment> \<open>the body of the loop: the text of the exception raised for one field, if any\<close>
  "collect_field E cls deser kwargs field_name =
     (case map_of kwargs field_name of
        None \<Rightarrow> Some (str_KeyError field_name)
      | Some raw_value \<Rightarrow>
          (case map_of (annotations cls) field_name of
             None \<Rightarrow> Some (str_KeyError field_name)
           | Some annotation \<Rightarrow> convert_value E deser raw_value annotation))"

fun collect_loop :: "env \<Rightarrow> signature_model \<Rightarrow> hook \<Rightarrow> pydict \<Rightarrow> string list \<Rightarrow> (string \<times> string) list" where
  "collect_loop E cls deser kwargs [] = []"
| "collect_loop E cls deser kwargs (field_name # rest) =
     (case collect_field E cls deser kwargs field_name of
        Some e \<Rightarrow> (field_name, e) # collect_loop E cls deser kwargs rest
      | None \<Rightarrow> collect_loop E cls deser kwargs rest)"

definition collect_errors :: "env \<Rightarrow> signature_model \<Rightarrow> hook \<Rightarrow> pydict \<Rightarrow> (string \<times> string) list" where
  "collect_errors E cls deser kwargs =
     collect_loop E cls deser kwargs (map fst (model_fields cls))"

definition structured_messages ::
  "signature_model \<Rightarrow> connection \<Rightarrow> sub_error list \<Rightarrow> ErrorMessage list" where
  \<comment> \<open>the loop of the first \<^verbatim>\<open>except\<close> clause\<close>
  "structured_messages cls conn errors =
     map (\<lambda>exc. build_error_message cls (map str_loc (loc exc)) (msg exc) conn) errors"

definition replay_keys :: "string \<Rightarrow> string \<Rightarrow> string list" where
  \<comment> \<open>\<^verbatim>\<open>[field_name, str(match.group(1))] if match else [field_name]\<close>\<close>
  "replay_keys field_name exc_text =
     (case ERR_RE_search exc_text of
        Some g \<Rightarrow> [field_name, g]
      | None \<Rightarrow> [field_name])"

definition replay_messages ::
  "signature_model \<Rightarrow> connection \<Rightarrow> string \<Rightarrow> (string \<times> string) list \<Rightarrow> ErrorMessage list" where
  \<comment> \<open>the loop of the second \<^verbatim>\<open>except\<close> clause; \<open>e\<close> is \<^verbatim>\<open>str(e)\<close> of the batch failure\<close>
  "replay_messages cls conn e collected =
     map (\<lambda>(field_name, exc). build_error_message cls (replay_keys field_name exc) e conn)
       collected"

definition dec_hook :: "env \<Rightarrow> decoder_store \<Rightarrow> connection \<Rightarrow> hook" where
  \<comment> \<open>\<^verbatim>\<open>partial(_deserializer, default_deserializer=...)\<close>\<close>
  "dec_hook E decoder_attr conn =
     (\<lambda>t v. deserializer (isinstance E) decoder_attr t v (default_deserializer conn))"

definition parse_values_from_connection_kwargs ::
  "env \<Rightarrow> decoder_store \<Rightarrow> signature_model \<Rightarrow> connection \<Rightarrow> pydict \<Rightarrow> exn + pydict" where
  "parse_values_from_connection_kwargs E decoder_attr cls conn kwargs =
     (let deser = dec_hook E decoder_attr conn
      in case convert_struct E deser kwargs cls of
           Inr d \<Rightarrow> Inr d
         | Inl (ExtendedMsgSpecValidationError errors) \<Rightarrow>
             Inl (create_exception (WEBSOCKET E) cls conn (structured_messages cls conn errors))
         | Inl (ValidationError e) \<Rightarrow>
             Inl (create_exception (WEBSOCKET E) cls conn
                    (replay_messages cls conn e (collect_errors E cls deser kwargs)))
         | Inl other \<Rightarrow> Inl other)"

text \<open>
  The decode pass behind \<^verbatim>\<open>convert\<close> on a struct type is \<^verbatim>\<open>msgspec\<close>'s. Where a
  statement is about what that pass returns, the conversion of the environment is
  tied to the following description of it.
\<close>

fun decode_pass ::
  "hook \<Rightarrow> (string \<times> ann \<times> pyval option) list \<Rightarrow> pydict \<Rightarrow> pydict option" where
  \<comment> \<open>Modelled from the spec: the structural decode pass of the value coercion engine
      (\<^verbatim>\<open>msgspec.convert\<close> on the signature record type, whose code is not in
      \<^verbatim>\<open>litestar/_signature/model.py\<close>). One pass over the fields of the record type: a
      field is read from the raw mapping and decoded against its type through the
      hook, a field that the mapping omits takes its default, a required field that
      is omitted or a value that the hook rejects fails the whole pass (\<open>None\<close>), and
      on full success the record is flattened to a field-to-value mapping.\<close>
  "decode_pass h [] kwargs = Some []"
| "decode_pass h ((n, t, dflt) # fs) kwargs =
     (case (case map_of kwargs n of
              Some raw \<Rightarrow> (case h t raw of Inr v \<Rightarrow> Some v | Inl e \<Rightarrow> None)
            | None \<Rightarrow> dflt) of
        None \<Rightarrow> None
      | Some v \<Rightarrow>
          (case decode_pass h fs kwargs of
             None \<Rightarrow> None
           | Some d \<Rightarrow> Some ((n, v) # d)))"

section \<open>Building the signature model\<close>

subsection \<open>Dicts in insertion order\<close>

fun dict_set :: "pydict \<Rightarrow> string \<Rightarrow> pyval \<Rightarrow> pydict" where
  \<comment> \<open>\<^verbatim>\<open>d[k] = v\<close>\<close>
  "dict_set [] k v = [(k, v)]"
| "dict_set ((k', v') # d) k v =
     (if k' = k then (k, v) # d else (k', v') # dict_set d k v)"

definition dict_pop :: "pydict \<Rightarrow> string \<Rightarrow> pyval \<times> pydict" where
  \<comment> \<open>\<^verbatim>\<open>d.pop(k, None)\<close>: the value and the dict without the key\<close>
  "dict_pop d k =
     (case map_of d k of
        Some v \<Rightarrow> (v, filter (\<lambda>(k', v'). k' \<noteq> k) d)
      | None \<Rightarrow> (PNone, d))"

subsection \<open>Constraint translation\<close>

definition MSGSPEC_CONSTRAINT_FIELDS :: "string list" where
  "MSGSPEC_CONSTRAINT_FIELDS =
     [''gt'', ''ge'', ''lt'', ''le'', ''multiple_of'', ''pattern'', ''min_length'', ''max_length'']"

definition extra_set :: "pydict \<Rightarrow> string \<Rightarrow> pyval \<Rightarrow> exn + pydict" where
  \<comment> \<open>\<^verbatim>\<open>meta_kwargs["extra"][k] = v\<close>: item assignment fails on a value that is no dict\<close>
  "extra_set meta_kwargs k v =
     (case map_of meta_kwargs ''extra'' of
        Some (PDict e) \<Rightarrow> Inr (dict_set meta_kwargs ''extra'' (PDict (dict_set e k v)))
      | Some other \<Rightarrow> Inl TypeError
      | None \<Rightarrow> Inl (KeyError ''extra''))"

fun meta_items :: "(string \<Rightarrow> bool) \<Rightarrow> pydict \<Rightarrow> pydict \<Rightarrow> exn + pydict" where
  \<comment> \<open>the loop over \<^verbatim>\<open>kwarg_definition.items()\<close>\<close>
  "meta_items has_attr [] meta_kwargs = Inr meta_kwargs"
| "meta_items has_attr ((k, v) # rest) meta_kwargs =
     (if has_attr k \<and> v \<noteq> PNone
      then meta_items has_attr rest (dict_set meta_kwargs k v)
      else case extra_set meta_kwargs k v of
             Inl e \<Rightarrow> Inl e
           | Inr meta_kwargs' \<Rightarrow> meta_items has_attr rest meta_kwargs')"

definition meta_kwargs_of :: "(string \<Rightarrow> bool) \<Rightarrow> pydict \<Rightarrow> exn + pydict" where
  \<comment> \<open>lines 230 to 242 of \<^verbatim>\<open>create\<close>, from the dict that \<^verbatim>\<open>simple_asdict\<close> returned to
      the keyword arguments of \<^verbatim>\<open>Meta\<close>\<close>
  "meta_kwargs_of has_attr kwarg_dict =
     (let meta_kwargs = [(''extra'', PDict [])];
          (min_items, kd) = dict_pop kwarg_dict ''min_items'';
          meta_kwargs = (if truthy min_items
                         then dict_set meta_kwargs ''min_length'' min_items else meta_kwargs);
          (max_items, kd) = dict_pop kd ''max_items'';
          meta_kwargs = (if truthy max_items
                         then dict_set meta_kwargs ''max_length'' max_items else meta_kwargs)
      in meta_items has_attr kd meta_kwargs)"

text \<open>
  Reading the result of the translation: the keyword argument \<open>k\<close> of \<^verbatim>\<open>Meta\<close>, and the
  entry \<open>k\<close> of the dict under \<^verbatim>\<open>"extra"\<close>; \<open>None\<close> when there is none.
\<close>

definition meta_entry :: "exn + pydict \<Rightarrow> string \<Rightarrow> pyval option" where
  "meta_entry r k = (case r of Inr mk \<Rightarrow> map_of mk k | Inl e \<Rightarrow> None)"

definition extra_entry :: "exn + pydict \<Rightarrow> string \<Rightarrow> pyval option" where
  "extra_entry r k =
     (case r of
        Inr mk \<Rightarrow> (case map_of mk ''extra'' of Some (PDict ex) \<Rightarrow> map_of ex k | _ \<Rightarrow> None)
      | Inl e \<Rightarrow> None)"

definition meta_data_of :: "env \<Rightarrow> field_definition \<Rightarrow> exn + pydict option" where
  \<comment> \<open>\<^verbatim>\<open>meta_data\<close> of one parameter: \<open>None\<close> unless its definition is a
      \<^verbatim>\<open>KwargDefinition\<close>\<close>
  "meta_data_of E fd =
     (case kwarg_definition fd of
        None \<Rightarrow> Inr None
      | Some DependencyKwarg \<Rightarrow> Inr None
      | Some kd \<Rightarrow>
          (case meta_kwargs_of (hasattr_Meta E) (simple_asdict E kd) of
             Inl e \<Rightarrow> Inl e
           | Inr meta_kwargs \<Rightarrow>
               (case Meta E meta_kwargs of Inl e \<Rightarrow> Inl e | Inr m \<Rightarrow> Inr (Some m))))"

subsection \<open>Annotations\<close>

text \<open>
  \<^verbatim>\<open>_create_annotation\<close>. \<^verbatim>\<open>setattr(annotation, "_decoder", decoder)\<close> writes to the
  type object, so the function takes the store of these attributes and returns it
  updated; the write itself is \<open>set_decoder\<close>, and its exception leaves the function.
  \<^verbatim>\<open>types[0]\<close> raises \<^verbatim>\<open>IndexError\<close> on an empty list.
\<close>

function create_annotation ::
  "env \<Rightarrow> bool \<Rightarrow> type_decoder list \<Rightarrow> pydict option \<Rightarrow> field_definition \<Rightarrow> decoder_store
     \<Rightarrow> exn + (ann \<times> decoder_store)" where
  "create_annotation E has_data_dto type_decoders meta_data
       (FieldDefinition nm an inner un opt kw hdf df) st =
     (let fd = FieldDefinition nm an inner un opt kw hdf df;
          annotation = normalize_annotation E fd has_data_dto
      in if annotation = AnyT then Inr (annotation, st)
         else if un then
           (case fold (\<lambda>inner_type acc.
                         case acc of
                           Inl e \<Rightarrow> Inl e
                         | Inr (types, s) \<Rightarrow>
                             (case create_annotation E has_data_dto type_decoders meta_data
                                     inner_type s of
                                Inl e \<Rightarrow> Inl e
                              | Inr (a, s') \<Rightarrow> Inr (types @ [a], s')))
                      (filter (\<lambda>t. fd_annotation t \<noteq> NoneT) inner) (Inr ([], st)) of
              Inl e \<Rightarrow> Inl e
            | Inr (types, st') \<Rightarrow>
                if opt
                then (case types of [] \<Rightarrow> Inl IndexError | t # ts \<Rightarrow> Inr (OptionalT t, st'))
                else Inr (UnionT types, st'))
         else
           (case (case get_decoder_for_type E annotation type_decoders of
                    Some decoder \<Rightarrow> set_decoder E annotation decoder st
                  | None \<Rightarrow> Inr st) of
              Inl e \<Rightarrow> Inl e
            | Inr st' \<Rightarrow>
                Inr (case meta_data of
                       Some m \<Rightarrow> AnnotatedT annotation m
                     | None \<Rightarrow> annotation, st')))"
  by pat_completeness auto
termination
  by (relation "measure (\<lambda>(E, h, tds, m, fd, st). size fd)") (auto simp: less_Suc_eq_le size_list_estimation')

subsection \<open>The struct\<close>

definition DEFAULT_TYPE_DECODERS :: "env \<Rightarrow> type_decoder list" where
  "DEFAULT_TYPE_DECODERS E =
     [(\<lambda>x. is_class_and_subclass E x
               [ClassT ''Path'', ClassT ''PurePath'', ClassT ''ImmutableState'', ClassT ''UUID''],
       \<lambda>t v. call_type E t v)]"

definition resolve_fn_name :: "string option \<Rightarrow> string" where
  \<comment> \<open>the argument is \<^verbatim>\<open>fn.__name__\<close>, \<open>None\<close> when \<^verbatim>\<open>fn\<close> has no such attribute\<close>
  "resolve_fn_name nm =
     (let fn_name = (case nm of Some n \<Rightarrow> n | None \<Rightarrow> ''anonymous'')
      in if fn_name \<noteq> [] \<and> fn_name \<noteq> ''<lambda>'' then fn_name else ''anonymous'')"

definition field_default :: "field_definition \<Rightarrow> pyval option" where
  \<comment> \<open>\<^verbatim>\<open>field_definition.default if field_definition.has_default else NODEFAULT\<close>\<close>
  "field_default fd = (if has_default fd then Some (fd_default fd) else None)"

fun struct_fields_loop ::
  "env \<Rightarrow> bool \<Rightarrow> type_decoder list \<Rightarrow> field_definition list \<Rightarrow> decoder_store
     \<Rightarrow> exn + ((string \<times> ann \<times> pyval option) list \<times> decoder_store)" where
  "struct_fields_loop E has_data_dto tds [] st = Inr ([], st)"
| "struct_fields_loop E has_data_dto tds (fd # rest) st =
     (case meta_data_of E fd of
        Inl e \<Rightarrow> Inl e
      | Inr meta_data \<Rightarrow>
          (case create_annotation E has_data_dto tds meta_data fd st of
             Inl e \<Rightarrow> Inl e
           | Inr (annotation, st') \<Rightarrow>
               (case struct_fields_loop E has_data_dto tds rest st' of
                  Inl e \<Rightarrow> Inl e
                | Inr (fs, st'') \<Rightarrow>
                    Inr ((fd_name fd, annotation, field_default fd) # fs, st''))))"

definition create ::
  "env \<Rightarrow> string set \<Rightarrow> string option \<Rightarrow> bool \<Rightarrow> parsed_signature \<Rightarrow> type_decoder list option
     \<Rightarrow> decoder_store \<Rightarrow> exn + (signature_model \<times> decoder_store)" where
  "create E dep_name_set fn has_data_dto parsed type_decoders st =
     (let fn_name = resolve_fn_name fn
      in case validate_signature_dependencies E dep_name_set fn_name parsed of
           Inl e \<Rightarrow> Inl e
         | Inr dependency_names \<Rightarrow>
             (case struct_fields_loop E has_data_dto
                     ((case type_decoders of Some tds \<Rightarrow> tds | None \<Rightarrow> [])
                        @ DEFAULT_TYPE_DECODERS E)
                     (map snd (parameters parsed)) st of
                Inl e \<Rightarrow> Inl e
              | Inr (fs, st') \<Rightarrow>
                  Inr (\<lparr>struct_name = fn_name @ ''_signature_model'',
                        struct_fields = fs,
                        dependency_name_set = dependency_names,
                        model_fields = parameters parsed,
                        return_annotation = fd_annotation (return_type parsed)\<rparr>, st')))"

section \<open>A worked handler\<close>

text \<open>
  The handler \<^verbatim>\<open>def get_item(id: int, name: Optional[str] = None, token: str =
  Parameter(cookie="token"), db: Any) -> ...\<close> with the dependency \<^verbatim>\<open>db\<close>, a request
  \<^verbatim>\<open>GET /items?id=...\<close>, and simple stand-ins for the imported functions.
\<close>

definition example_env :: env where
  "example_env =
     \<lparr>WEBSOCKET = ''websocket'',
      isinstance = (\<lambda>v t. case (v, t) of
                              (PInt i, ClassT c) \<Rightarrow> c = ''int''
                            | (PStr x, ClassT c) \<Rightarrow> c = ''str''
                            | _ \<Rightarrow> False),
      call_type = (\<lambda>t v. Inr v),
      set_decoder = (\<lambda>t d st. if t \<in> {ClassT ''int'', ClassT ''str'', NoneT, AnyT}
                              then Inl TypeError else Inr (st(t := Some d))),
      is_class_and_subclass = (\<lambda>t ts. t \<in> set ts),
      normalize_annotation = (\<lambda>fd dto. fd_annotation fd),
      get_decoder_for_type = (\<lambda>t tds. map_option snd (find (\<lambda>(p, d). p t) tds)),
      validate_signature_dependencies = (\<lambda>names fn_name parsed. Inr names),
      simple_asdict = (\<lambda>kd. case kd of
                                ParameterKwarg h c a \<Rightarrow> a
                              | BodyKwarg a \<Rightarrow> a
                              | DependencyKwarg \<Rightarrow> []),
      hasattr_Meta = (\<lambda>k. k \<in> set MSGSPEC_CONSTRAINT_FIELDS),
      Meta = Inr,
      convert_struct = (\<lambda>h kwargs cls. Inr kwargs),
      convert_value = (\<lambda>h v t. None)\<rparr>"

definition example_connection :: connection where
  "example_connection =
     \<lparr>http_method = Some ''GET'', url = ''/items'', query_params = [''id''],
      default_deserializer = (\<lambda>t v. Inl TypeError)\<rparr>"

definition plain_field :: "string \<Rightarrow> ann \<Rightarrow> field_definition" where
  \<comment> \<open>a required parameter of a plain type, with no parameter definition\<close>
  "plain_field n t = FieldDefinition n t [] False False None False PNone"

definition example_parameters :: "(string \<times> field_definition) list" where
  "example_parameters =
     [(''id'', plain_field ''id'' (ClassT ''int'')),
      (''name'',
         FieldDefinition ''name'' (UnionT [ClassT ''str'', NoneT])
           [plain_field ''name'' (ClassT ''str''), plain_field ''name'' NoneT]
           True True None True PNone),
      (''token'',
         FieldDefinition ''token'' (ClassT ''str'') [] False False
           (Some (ParameterKwarg None (Some ''token'') [])) False PNone),
      (''db'', plain_field ''db'' AnyT)]"

definition example_model :: signature_model where
  "example_model =
     \<lparr>struct_name = ''get_item_signature_model'',
      struct_fields =
        [(''id'', ClassT ''int'', None),
         (''name'', OptionalT (ClassT ''str''), Some PNone),
         (''token'', AnnotatedT (ClassT ''str'') [(''extra'', PDict [])], None),
         (''db'', AnyT, None)],
      dependency_name_set = {''db''},
      model_fields = example_parameters,
      return_annotation = AnyT\<rparr>"

definition example_kwargs :: pydict where
  "example_kwargs =
     [(''id'', PInt 5), (''name'', PNone), (''token'', PStr ''t''), (''db'', PNone)]"

definition failing_env :: "exn \<Rightarrow> env" where
  \<comment> \<open>the stand-ins, with a batch conversion that raises \<open>x\<close>\<close>
  "failing_env x = example_env\<lparr>convert_struct := (\<lambda>h kwargs cls. Inl x)\<rparr>"

definition dependency_message :: ErrorMessage where
  "dependency_message = \<lparr>key = Some ''db'', message = ''bad session'', source = None\<rparr>"

definition client_message :: ErrorMessage where
  "client_message = \<lparr>key = Some ''id'', message = ''bad id'', source = Some (Param QUERY)\<rparr>"



definition path_decoder :: hook where
  "path_decoder = (\<lambda>t v. case v of PStr p \<Rightarrow> Inr (PList [PStr p]) | _ \<Rightarrow> Inl TypeError)"

definition example_store :: decoder_store where
  "example_store = (\<lambda>t. if t = ClassT ''Path'' then Some path_decoder else None)"

definition example_constraints :: pydict where
  "example_constraints =
     [(''min_items'', PInt 2), (''gt'', PInt 0), (''format'', PStr ''x''), (''ge'', PNone),
      (''max_items'', PInt 0)]"

definition example_signature :: parsed_signature where
  "example_signature =
     \<lparr>parameters = example_parameters, return_type = plain_field ''return'' AnyT\<rparr>"

definition optional_union_field :: field_definition where
  "optional_union_field =
     FieldDefinition ''x'' (UnionT [ClassT ''int'', ClassT ''str'', NoneT])
       [plain_field ''x'' (ClassT ''int''), plain_field ''x'' (ClassT ''str''),
        plain_field ''x'' NoneT]
       True True None False PNone"

definition plain_union_field :: field_definition where
  "plain_union_field =
     FieldDefinition ''x'' (UnionT [ClassT ''int'', ClassT ''str''])
       [plain_field ''x'' (ClassT ''int''), plain_field ''x'' (ClassT ''str'')]
       True False None False PNone"

definition no_token_kwargs :: pydict where
  "no_token_kwargs = [(''id'', PInt 5), (''name'', PNone), (''db'', PNone)]"

definition no_db_kwargs :: pydict where
  "no_db_kwargs = [(''id'', PInt 5), (''name'', PNone), (''token'', PStr ''t'')]"

definition typed_fields :: signature_model where
  "typed_fields =
     \<lparr>struct_name = ''list_items_signature_model'',
      struct_fields =
        [(''id'', ClassT ''int'', None), (''label'', ClassT ''str'', None),
         (''limit'', ClassT ''int'', Some (PInt 10))],
      dependency_name_set = {},
      model_fields =
        [(''id'', plain_field ''id'' (ClassT ''int'')),
         (''label'', plain_field ''label'' (ClassT ''str'')),
         (''limit'', FieldDefinition ''limit'' (ClassT ''int'') [] False False None True (PInt 10))],
      return_annotation = AnyT\<rparr>"

definition typed_kwargs :: pydict where
  "typed_kwargs = [(''id'', PInt 5), (''label'', PStr ''a'')]"

definition decoding_env :: env where
  \<comment> \<open>the stand-ins, with the decode pass as the batch conversion\<close>
  "decoding_env =
     example_env
       \<lparr>convert_struct :=
          (\<lambda>h kwargs cls. case decode_pass h (struct_fields cls) kwargs of
                             Some d \<Rightarrow> Inr d
                           | None \<Rightarrow> Inl (ValidationError []))\<rparr>"

section \<open>Facts about the string operations\<close>

lemma startswith_occurs_at: "startswith s sep \<longleftrightarrow> occurs_at sep s 0"
proof -
  have "length sep \<le> length s" if "take (length sep) s = sep"
  proof -
    have "length (take (length sep) s) = length sep" using that by simp
    then show ?thesis by simp
  qed
  then show ?thesis by (auto simp: startswith_def occurs_at_def)
qed

lemma occurs_at_Cons_Suc: "occurs_at sep (c # cs) (Suc i) \<longleftrightarrow> occurs_at sep cs i"
  by (simp add: occurs_at_def)

lemma occurs_at_append: "occurs_at sep s i \<Longrightarrow> occurs_at sep (s @ t) i"
  by (auto simp: occurs_at_def)

lemma split_first_prefix: "\<exists>t. s = split_first sep s @ t"
  by (induction s) auto

lemma split_first_none:
  "(\<forall>i. \<not> occurs_at sep s i) \<Longrightarrow> split_first sep s = s"
proof (induction s)
  case Nil
  then show ?case by simp
next
  case (Cons c cs)
  have "\<not> startswith (c # cs) sep"
    using Cons.prems by (simp add: startswith_occurs_at)
  moreover have "\<forall>i. \<not> occurs_at sep cs i"
    using Cons.prems occurs_at_Cons_Suc by blast
  ultimately show ?case using Cons.IH by simp
qed

lemma split_first_take:
  "occurs_at sep s i \<Longrightarrow> (\<forall>j<i. \<not> occurs_at sep s j) \<Longrightarrow> split_first sep s = take i s"
proof (induction s arbitrary: i)
  case Nil
  then show ?case by simp
next
  case (Cons c cs)
  show ?case
  proof (cases i)
    case 0
    then show ?thesis using Cons.prems(1) by (simp add: startswith_occurs_at)
  next
    case (Suc k)
    have a: "\<not> startswith (c # cs) sep"
      using Cons.prems(2) Suc by (simp add: startswith_occurs_at)
    have b: "occurs_at sep cs k"
      using Cons.prems(1) Suc by (simp add: occurs_at_Cons_Suc)
    have c: "\<forall>j<k. \<not> occurs_at sep cs j"
      using Cons.prems(2) Suc occurs_at_Cons_Suc by (metis Suc_less_eq)
    show ?thesis using a Cons.IH [OF b c] Suc by simp
  qed
qed

lemma split_first_no_occurrence:
  "sep \<noteq> [] \<Longrightarrow> \<not> occurs_at sep (split_first sep s) i"
proof (induction s arbitrary: i)
  case Nil
  then show ?case by (simp add: occurs_at_def)
next
  case (Cons c cs)
  show ?case
  proof (cases "startswith (c # cs) sep")
    case True
    then show ?thesis using Cons.prems by (simp add: occurs_at_def)
  next
    case False
    obtain t where t: "cs = split_first sep cs @ t"
      using split_first_prefix by blast
    show ?thesis
    proof (cases i)
      case 0
      have "\<not> occurs_at sep (c # split_first sep cs) 0"
      proof
        assume "occurs_at sep (c # split_first sep cs) 0"
        then have "occurs_at sep ((c # split_first sep cs) @ t) 0"
          by (rule occurs_at_append)
        then have "occurs_at sep (c # cs) 0" using t by simp
        then show False using False by (simp add: startswith_occurs_at)
      qed
      then show ?thesis using False 0 by simp
    next
      case (Suc k)
      then show ?thesis using False Cons.IH [OF Cons.prems] by (simp add: occurs_at_Cons_Suc)
    qed
  qed
qed

section \<open>The text of a projected message\<close>

lemma message_build_error_message:
  "message (build_error_message cls keys exc_msg conn) = split_first '' - '' exc_msg"
  by (simp add: build_error_message_def Let_def split: list.splits option.splits kwarg_def.splits)

text \<open>
  C8. The text of every message built by \<^verbatim>\<open>_build_error_message\<close> is the raw decoder
  message cut before its first \<^verbatim>\<open>" - "\<close>: it is the whole raw message when the
  separator does not occur, the prefix before the first occurrence when it does, and
  in both cases the separator occurs nowhere in the emitted text.
\<close>

theorem build_error_message_text_truncated:
  "message (build_error_message cls keys raw conn) = split_first '' - '' raw
   \<and> (\<forall>i. \<not> occurs_at '' - '' (message (build_error_message cls keys raw conn)) i)
   \<and> ((\<forall>i. \<not> occurs_at '' - '' raw i)
        \<longrightarrow> message (build_error_message cls keys raw conn) = raw)
   \<and> (\<forall>i. occurs_at '' - '' raw i \<and> (\<forall>j<i. \<not> occurs_at '' - '' raw j)
        \<longrightarrow> message (build_error_message cls keys raw conn) = take i raw)"
proof -
  have "\<not> occurs_at '' - '' (split_first '' - '' raw) i" for i
    by (rule split_first_no_occurrence) simp
  then show ?thesis
    by (simp add: message_build_error_message split_first_none split_first_take)
qed

theorem build_error_message_text_truncated_witness:
  "message (build_error_message example_model [''id''] ''bad - at x - y'' example_connection)
     = ''bad''"
proof -
  have a: "occurs_at '' - '' ''bad - at x - y'' 3"
    by (simp add: occurs_at_def)
  have b: "\<forall>j<3. \<not> occurs_at '' - '' ''bad - at x - y'' j"
    by (auto simp: occurs_at_def less_Suc_eq numeral_3_eq_3)
  have "message (build_error_message example_model [''id''] ''bad - at x - y'' example_connection)
          = take 3 ''bad - at x - y''"
    using build_error_message_text_truncated
            [of example_model "[''id'']" "''bad - at x - y''" example_connection] a b
    by blast
  then show ?thesis by simp
qed

section \<open>Exception creation on an empty list\<close>

text \<open>
  C10. \<^verbatim>\<open>_create_exception\<close> on an empty list of messages returns the internal server
  exception, never a client validation exception. The empty list is reached when a
  structured failure carries no sub-error, and when the replay after an unstructured
  failure reproduces no failing field; in both cases the call ends with the internal
  server exception.
\<close>

theorem create_exception_empty_is_internal:
  "create_exception ws cls conn [] = InternalServerException
   \<and> (convert_struct E (dec_hook E st conn) kwargs cls = Inl (ExtendedMsgSpecValidationError [])
        \<longrightarrow> parse_values_from_connection_kwargs E st cls conn kwargs
              = Inl InternalServerException)
   \<and> (convert_struct E (dec_hook E st conn) kwargs cls = Inl (ValidationError e)
          \<and> collect_errors E cls (dec_hook E st conn) kwargs = []
        \<longrightarrow> parse_values_from_connection_kwargs E st cls conn kwargs
              = Inl InternalServerException)"
  by (simp add: create_exception_def parse_values_from_connection_kwargs_def
        structured_messages_def replay_messages_def)

theorem create_exception_empty_is_internal_witness:
  "parse_values_from_connection_kwargs (failing_env (ExtendedMsgSpecValidationError []))
      (\<lambda>t. None) example_model example_connection example_kwargs = Inl InternalServerException
   \<and> parse_values_from_connection_kwargs (failing_env (ValidationError ''Expected `int`''))
      (\<lambda>t. None) example_model example_connection example_kwargs = Inl InternalServerException"
proof -
  have a: "convert_struct (failing_env x) h example_kwargs example_model = Inl x" for x h
    by (simp add: failing_env_def)
  have b: "collect_errors (failing_env x) example_model h example_kwargs = []" for x h
    by (simp add: collect_errors_def collect_field_def failing_env_def example_env_def
      example_model_def example_parameters_def example_kwargs_def annotations_def)
  show ?thesis
    using create_exception_empty_is_internal
            [of "''websocket''" example_model example_connection
                "failing_env (ExtendedMsgSpecValidationError [])" "\<lambda>t. None" example_kwargs]
          create_exception_empty_is_internal
            [of "''websocket''" example_model example_connection
                "failing_env (ValidationError ''Expected `int`'')" "\<lambda>t. None" example_kwargs
                "''Expected `int`''"]
          a b
    by simp
qed

section \<open>The source tag of a projected message\<close>

lemma replace_with_empty_none:
  "(\<forall>i. \<not> occurs_at old s i) \<Longrightarrow> replace_with_empty old s = s"
proof (induction s)
  case Nil
  then show ?case by simp
next
  case (Cons c cs)
  have "\<not> startswith (c # cs) old"
    using Cons.prems by (simp add: startswith_occurs_at)
  moreover have "\<forall>i. \<not> occurs_at old cs i"
    using Cons.prems occurs_at_Cons_Suc by blast
  ultimately show ?case using Cons.IH by simp
qed

lemma join_Cons: "ks \<noteq> [] \<Longrightarrow> join sep (k # ks) = k @ sep @ join sep ks"
  by (cases ks) simp_all

lemma replace_data_prefix:
  "replace_with_empty ''data.'' (''data.'' @ s) = replace_with_empty ''data.'' s"
  by (simp add: startswith_def)

lemma build_data:
  "build_error_message cls (''data'' # ks) raw conn =
     \<lparr>key = Some (replace_with_empty ''data.'' (join ''.'' (''data'' # ks))),
      message = split_first '' - '' raw, source = Some Body\<rparr>"
  by (simp add: build_error_message_def Let_def startswith_def del: replace_with_empty.simps join.simps)

lemma build_not_data:
  "\<not> startswith k0 ''data'' \<Longrightarrow>
   build_error_message cls (k0 # ks) raw conn =
     \<lparr>key = Some (join ''.'' (k0 # ks)), message = split_first '' - '' raw,
      source =
        (if join ''.'' (k0 # ks) \<in> set (query_params conn) then Some (Param QUERY)
         else case map_of (model_fields cls) (join ''.'' (k0 # ks)) of
                None \<Rightarrow> None
              | Some fd \<Rightarrow>
                  (case kwarg_definition fd of
                     Some (ParameterKwarg h c a) \<Rightarrow>
                       Some (Param (if str_truthy c then COOKIE
                                    else if str_truthy h then HEADER else QUERY))
                   | _ \<Rightarrow> None))\<rparr>"
  by (simp add: build_error_message_def Let_def del: join.simps
           split: option.splits kwarg_def.splits)

text \<open>
  C2, as amended. For a message built with a non-empty key path \<open>k0 # ks\<close>: when the
  first key is \<^verbatim>\<open>data\<close> the source is body, and the key is \<^verbatim>\<open>data\<close> for the path of
  that one key and the joined rest of the path when \<^verbatim>\<open>data.\<close> does not occur in that
  rest; when the first key does not start with \<^verbatim>\<open>data\<close> the key is the joined path and
  the source is query if the joined key is a query parameter name of the connection,
  else cookie, header or query (in this order) if the joined key names a field whose
  definition is a \<^verbatim>\<open>ParameterKwarg\<close>, and otherwise the message has no source.
\<close>

theorem build_error_message_source:
  assumes "keys = k0 # ks"
  shows
  "(k0 = ''data'' \<longrightarrow> source (build_error_message cls keys raw conn) = Some Body)
   \<and> (k0 = ''data'' \<and> ks = [] \<longrightarrow> key (build_error_message cls keys raw conn) = Some ''data'')
   \<and> (k0 = ''data'' \<and> ks \<noteq> [] \<and> (\<forall>i. \<not> occurs_at ''data.'' (join ''.'' ks) i)
        \<longrightarrow> key (build_error_message cls keys raw conn) = Some (join ''.'' ks))
   \<and> (\<not> startswith k0 ''data''
        \<longrightarrow> key (build_error_message cls keys raw conn) = Some (join ''.'' keys))
   \<and> (\<not> startswith k0 ''data'' \<and> join ''.'' keys \<in> set (query_params conn)
        \<longrightarrow> source (build_error_message cls keys raw conn) = Some (Param QUERY))
   \<and> (\<forall>fd h c a. \<not> startswith k0 ''data'' \<and> join ''.'' keys \<notin> set (query_params conn)
          \<and> map_of (model_fields cls) (join ''.'' keys) = Some fd
          \<and> kwarg_definition fd = Some (ParameterKwarg h c a)
        \<longrightarrow> source (build_error_message cls keys raw conn)
              = Some (Param (if str_truthy c then COOKIE
                             else if str_truthy h then HEADER else QUERY)))
   \<and> (\<not> startswith k0 ''data'' \<and> join ''.'' keys \<notin> set (query_params conn)
          \<and> (case map_of (model_fields cls) (join ''.'' keys) of
                None \<Rightarrow> True
              | Some fd \<Rightarrow> (case kwarg_definition fd of
                             Some (ParameterKwarg h c a) \<Rightarrow> False | _ \<Rightarrow> True))
        \<longrightarrow> source (build_error_message cls keys raw conn) = None)"
proof -
  have j: "ks \<noteq> [] \<Longrightarrow> join ''.'' (''data'' # ks) = ''data.'' @ join ''.'' ks"
    by (simp add: join_Cons)
  have r: "replace_with_empty ''data.'' ''data'' = ''data''"
    by (simp add: startswith_def)
  have k1: "k0 = ''data'' \<Longrightarrow> ks = [] \<Longrightarrow>
            key (build_error_message cls keys raw conn) = Some ''data''"
    unfolding assms using r by (simp add: build_data del: replace_with_empty.simps)
  have k2: "k0 = ''data'' \<Longrightarrow> ks \<noteq> [] \<Longrightarrow>
            key (build_error_message cls keys raw conn)
              = Some (replace_with_empty ''data.'' (join ''.'' ks))"
    unfolding assms using j replace_data_prefix [of "join ''.'' ks"]
    by (simp add: build_data del: replace_with_empty.simps join.simps)
  have k3: "k0 = ''data'' \<Longrightarrow> ks \<noteq> [] \<Longrightarrow> \<forall>i. \<not> occurs_at ''data.'' (join ''.'' ks) i \<Longrightarrow>
            key (build_error_message cls keys raw conn) = Some (join ''.'' ks)"
    using k2 replace_with_empty_none [of "''data.''" "join ''.'' ks"] by simp
  have s1: "k0 = ''data'' \<Longrightarrow> source (build_error_message cls keys raw conn) = Some Body"
    unfolding assms by (simp add: build_data del: replace_with_empty.simps join.simps)
  have n: "\<not> startswith k0 ''data'' \<Longrightarrow>
           build_error_message cls keys raw conn =
     \<lparr>key = Some (join ''.'' keys), message = split_first '' - '' raw,
      source =
        (if join ''.'' keys \<in> set (query_params conn) then Some (Param QUERY)
         else case map_of (model_fields cls) (join ''.'' keys) of
                None \<Rightarrow> None
              | Some fd \<Rightarrow>
                  (case kwarg_definition fd of
                     Some (ParameterKwarg h c a) \<Rightarrow>
                       Some (Param (if str_truthy c then COOKIE
                                    else if str_truthy h then HEADER else QUERY))
                   | _ \<Rightarrow> None))\<rparr>"
    unfolding assms by (rule build_not_data)
  show ?thesis
    apply (intro conjI impI allI)
    subgoal by (rule s1)
    subgoal using k1 by blast
    subgoal using k3 by blast
    subgoal using n by simp
    subgoal using n by simp
    subgoal using n by (simp del: join.simps)
    subgoal using n by (simp del: join.simps split: option.splits kwarg_def.splits)
    done
qed


theorem build_error_message_source_witness:
  "source (build_error_message example_model [''token''] ''bad'' example_connection)
     = Some (Param COOKIE)
   \<and> source (build_error_message example_model [''data'', ''age''] ''bad'' example_connection)
     = Some Body
   \<and> key (build_error_message example_model [''data'', ''age''] ''bad'' example_connection)
     = Some ''age''"
proof -
  have q: "join ''.'' [''token''] \<notin> set (query_params example_connection)"
    by (simp add: example_connection_def)
  have f: "map_of (model_fields example_model) (join ''.'' [''token''])
             = Some (FieldDefinition ''token'' (ClassT ''str'') [] False False
                       (Some (ParameterKwarg None (Some ''token'') [])) False PNone)"
    by (simp add: example_model_def example_parameters_def)
  have n: "\<not> startswith ''token'' ''data''"
    by (simp add: startswith_def)
  have o: "\<forall>i. \<not> occurs_at ''data.'' (join ''.'' [''age'']) i"
    by (simp add: occurs_at_def)
  note t1 = build_error_message_source
              [of "[''token'']" "''token''" "[]" example_model "''bad''" example_connection,
               OF refl]
  note t2 = build_error_message_source
              [of "[''data'', ''age'']" "''data''" "[''age'']" example_model "''bad''"
                  example_connection, OF refl]
  have a: "source (build_error_message example_model [''token''] ''bad'' example_connection)
             = Some (Param (if str_truthy (Some ''token'') then COOKIE
                            else if str_truthy None then HEADER else QUERY))"
    using t1 q f n by (metis field_definition.sel(6))
  have b: "source (build_error_message example_model [''data'', ''age''] ''bad'' example_connection)
             = Some Body"
    using t2 by blast
  have c: "key (build_error_message example_model [''data'', ''age''] ''bad'' example_connection)
             = Some (join ''.'' [''age''])"
    using t2 o by blast
  show ?thesis using a b c by (simp add: str_truthy_def)
qed

text \<open>
  The claim as stated fails: a key that is no query parameter name and names a field
  without a \<^verbatim>\<open>ParameterKwarg\<close> gets no source.
\<close>

theorem build_error_message_source_counterexample:
  "key (build_error_message example_model [''name''] ''bad'' example_connection) = Some ''name''
   \<and> source (build_error_message example_model [''name''] ''bad'' example_connection) = None"
  by (simp add: build_error_message_def startswith_def example_connection_def
        example_model_def example_parameters_def)

section \<open>Client errors and dependency errors\<close>

text \<open>
  C3, as amended. A message is client-caused exactly when it has no key or its key is
  not in the dependency name set. If some message is client-caused the result is a
  client validation exception whose detail names the method and the URL and whose
  extra payload is the list of the client-caused messages, in their order; if every
  message has a key in the dependency name set the result is the internal server
  exception, which carries no message.
\<close>

theorem create_exception_client_errors:
  "(is_client_error cls m
      \<longleftrightarrow> key m = None \<or> (\<exists>k. key m = Some k \<and> k \<notin> dependency_name_set cls))
   \<and> ((\<exists>m \<in> set messages. is_client_error cls m)
        \<longrightarrow> create_exception ws cls conn messages
              = ValidationException
                  (''Validation failed for ''
                     @ (case http_method conn of Some meth \<Rightarrow> meth | None \<Rightarrow> ws) @ '' '' @ url conn)
                  (filter (is_client_error cls) messages))
   \<and> ((\<forall>m \<in> set messages. \<exists>k. key m = Some k \<and> k \<in> dependency_name_set cls)
        \<longrightarrow> create_exception ws cls conn messages = InternalServerException)"
proof -
  have a: "is_client_error cls m
      \<longleftrightarrow> key m = None \<or> (\<exists>k. key m = Some k \<and> k \<notin> dependency_name_set cls)" for m
    by (simp add: is_client_error_def split: option.splits)
  have b: "filter (is_client_error cls) messages \<noteq> []"
    if "\<exists>m \<in> set messages. is_client_error cls m"
    using that by (simp add: filter_empty_conv)
  have c: "filter (is_client_error cls) messages = []"
    if "\<forall>m \<in> set messages. \<exists>k. key m = Some k \<and> k \<in> dependency_name_set cls"
    using that a by (auto simp: filter_empty_conv)
  show ?thesis
    using a b c by (simp add: create_exception_def Let_def)
qed

theorem create_exception_client_errors_witness:
  "create_exception ''websocket'' example_model example_connection
      [dependency_message, client_message]
     = ValidationException ''Validation failed for GET /items'' [client_message]
   \<and> create_exception ''websocket'' example_model example_connection [dependency_message]
     = InternalServerException"
proof -
  have a: "is_client_error example_model client_message"
    by (simp add: is_client_error_def client_message_def example_model_def)
  have b: "\<not> is_client_error example_model dependency_message"
    by (simp add: is_client_error_def dependency_message_def example_model_def)
  have c: "\<exists>k. key dependency_message = Some k \<and> k \<in> dependency_name_set example_model"
    by (simp add: dependency_message_def example_model_def)
  have d: "\<exists>m \<in> set [dependency_message, client_message]. is_client_error example_model m"
    using a by simp
  have e: "\<forall>m \<in> set [dependency_message].
             \<exists>k. key m = Some k \<and> k \<in> dependency_name_set example_model"
    using c by simp
  have "create_exception ''websocket'' example_model example_connection
          [dependency_message, client_message]
        = ValidationException
            (''Validation failed for ''
               @ (case http_method example_connection of Some meth \<Rightarrow> meth | None \<Rightarrow> ''websocket'')
               @ '' '' @ url example_connection)
            (filter (is_client_error example_model) [dependency_message, client_message])"
    using create_exception_client_errors
            [of example_model client_message "[dependency_message, client_message]"
                "''websocket''" example_connection] d
    by blast
  moreover have "create_exception ''websocket'' example_model example_connection
          [dependency_message] = InternalServerException"
    using create_exception_client_errors
            [of example_model client_message "[dependency_message]"
                "''websocket''" example_connection] e
    by blast
  ultimately show ?thesis
    using a b by (simp add: example_connection_def)
qed

text \<open>
  The claim as stated fails: the payload is not the full list when a message of a
  dependency stands beside a client-caused one.
\<close>

theorem create_exception_full_list_counterexample:
  "is_client_error example_model client_message
   \<and> extra (create_exception ''websocket'' example_model example_connection
               [dependency_message, client_message])
       = [client_message]
   \<and> [client_message] \<noteq> [dependency_message, client_message]"
  by (simp add: create_exception_def is_client_error_def client_message_def
        dependency_message_def example_model_def)

section \<open>The outcomes of coercion\<close>

lemma request_exception_create: "is_request_exception (create_exception ws cls conn ms)"
  by (simp add: create_exception_def is_request_exception_def Let_def)

lemma parse_values_decode_failures:
  "(parse_values_from_connection_kwargs E st cls conn kwargs = Inr d
      \<longleftrightarrow> convert_struct E (dec_hook E st conn) kwargs cls = Inr d)
   \<and> (\<forall>x. parse_values_from_connection_kwargs E st cls conn kwargs = Inl x
          \<longrightarrow> \<not> is_decode_failure x)
   \<and> (\<forall>y. convert_struct E (dec_hook E st conn) kwargs cls = Inl y \<and> is_decode_failure y
          \<longrightarrow> (\<exists>x. parse_values_from_connection_kwargs E st cls conn kwargs = Inl x
                    \<and> is_request_exception x))"
proof -
  have r: "is_request_exception x \<Longrightarrow> \<not> is_decode_failure x" for x
    by (cases x) (simp_all add: is_request_exception_def is_decode_failure_def)
  show ?thesis
  proof (cases "convert_struct E (dec_hook E st conn) kwargs cls")
    case (Inr d')
    then show ?thesis
      by (simp add: parse_values_from_connection_kwargs_def)
  next
    case (Inl y)
    show ?thesis
    proof (cases y)
      case (ExtendedMsgSpecValidationError errs)
      then show ?thesis using Inl r request_exception_create
        by (auto simp: parse_values_from_connection_kwargs_def is_decode_failure_def)
    next
      case (ValidationError e)
      then show ?thesis using Inl r request_exception_create
        by (auto simp: parse_values_from_connection_kwargs_def is_decode_failure_def)
    qed (use Inl in \<open>simp_all add: parse_values_from_connection_kwargs_def is_decode_failure_def\<close>)
  qed
qed

text \<open>
  C4. Every call of \<^verbatim>\<open>parse_values_from_connection_kwargs\<close> that does not return is to
  raise a client validation exception or the internal server exception, and the
  docstring of the function says so too (\<^verbatim>\<open>InternalServerException: If another exception
  has been raised\<close>). The function catches \<^verbatim>\<open>ValidationError\<close> and its subclass only:
  when the conversion raises an exception of another class, as it does for an exception
  of a decoder that is neither a \<^verbatim>\<open>ValueError\<close> nor a \<^verbatim>\<open>TypeError\<close>, that exception
  leaves the call, and it is neither of the two. The rest of the statement holds: a
  mapping is returned exactly when the conversion returns it, and a decode failure
  never leaves the call.
\<close>

theorem parse_other_exception_escapes:
  "parse_values_from_connection_kwargs (failing_env (OtherException ''boom''))
      (\<lambda>t. None) example_model example_connection example_kwargs
     = Inl (OtherException ''boom'')
   \<and> \<not> is_request_exception (OtherException ''boom'')"
  by (simp add: parse_values_from_connection_kwargs_def failing_env_def is_request_exception_def)

section \<open>The replay after an unstructured failure\<close>

lemma ERR_RE_match_here_sound:
  assumes "ERR_RE_match_here s = Some g"
  shows "g \<noteq> [] \<and> s = ERR_RE_head @ g @ [CHR 0x60]"
proof -
  have c: "startswith s ERR_RE_head \<and> 5 \<le> length s \<and> last s = CHR 0x60
             \<and> CHR 0x0A \<notin> set (butlast (drop 3 s))"
    using assms unfolding ERR_RE_match_here_def Let_def by (meson option.distinct(1))
  have h: "startswith s ERR_RE_head" and l: "5 \<le> length s" and b: "last s = CHR 0x60"
    using c by blast+
  have g: "g = butlast (drop 3 s)"
    using assms c unfolding ERR_RE_match_here_def Let_def by simp
  have len: "length ERR_RE_head = 3" by (simp add: ERR_RE_head_def)
  have "take 3 s = ERR_RE_head" using h unfolding startswith_def len .
  then have s: "s = ERR_RE_head @ drop 3 s" by (metis append_take_drop_id)
  have ne: "drop 3 s \<noteq> []" using l by simp
  have "last (drop 3 s) = CHR 0x60" using b ne by (simp add: last_drop)
  then have "drop 3 s = g @ [CHR 0x60]" using g ne by (metis append_butlast_last_id)
  moreover have "g \<noteq> []" using g l by (simp add: length_greater_0_conv [symmetric] del: length_greater_0_conv)
  ultimately show ?thesis using s by simp
qed

lemma ERR_RE_scan_sound:
  "ERR_RE_scan s = Some g \<Longrightarrow> g \<noteq> [] \<and> (\<exists>pre. s = pre @ ERR_RE_head @ g @ [CHR 0x60])"
proof (induction s)
  case Nil
  then show ?case by simp
next
  case (Cons c cs)
  show ?case
  proof (cases "ERR_RE_match_here (c # cs)")
    case None
    then have "ERR_RE_scan cs = Some g" using Cons.prems by simp
    then obtain pre where "g \<noteq> []" "cs = pre @ ERR_RE_head @ g @ [CHR 0x60]"
      using Cons.IH by blast
    then have "g \<noteq> [] \<and> c # cs = (c # pre) @ ERR_RE_head @ g @ [CHR 0x60]" by simp
    then show ?thesis by blast
  next
    case (Some g')
    then have "g' = g" using Cons.prems by simp
    then have "g \<noteq> [] \<and> c # cs = [] @ ERR_RE_head @ g @ [CHR 0x60]"
      using ERR_RE_match_here_sound [OF Some] by simp
    then show ?thesis by blast
  qed
qed

lemma ERR_RE_search_sound:
  assumes "ERR_RE_search x = Some g"
  shows "g \<noteq> [] \<and> (\<exists>pre. x = pre @ ERR_RE_head @ g @ [CHR 0x60]
                      \<or> x = pre @ ERR_RE_head @ g @ [CHR 0x60, CHR 0x0A])"
proof (cases "x \<noteq> [] \<and> last x = CHR 0x0A")
  case True
  then have "ERR_RE_scan (butlast x) = Some g" using assms by (simp add: ERR_RE_search_def)
  then obtain pre where p: "g \<noteq> []" "butlast x = pre @ ERR_RE_head @ g @ [CHR 0x60]"
    using ERR_RE_scan_sound by blast
  have "x = butlast x @ [CHR 0x0A]" using True by (metis append_butlast_last_id)
  then have "x = pre @ ERR_RE_head @ g @ [CHR 0x60, CHR 0x0A]" using p(2) by simp
  then show ?thesis using p(1) by blast
next
  case False
  then have "ERR_RE_scan x = Some g" using assms by (auto simp: ERR_RE_search_def)
  then show ?thesis using ERR_RE_scan_sound by blast
qed






section \<open>The decoding hook, case by case\<close>

lemma dec_hook_instance:
  "isinstance E v t \<Longrightarrow> dec_hook E st conn t v = Inr v"
  by (simp add: dec_hook_def deserializer_def)

lemma decode_pass_identity:
  assumes "\<forall>(n, t, dflt) \<in> set fs.
             (case map_of kwargs n of Some v \<Rightarrow> h t v = Inr v | None \<Rightarrow> dflt \<noteq> None)"
  shows "\<exists>d. decode_pass h fs kwargs = Some d \<and> map fst d = map fst fs
           \<and> (\<forall>n v. n \<in> fst ` set fs \<and> map_of kwargs n = Some v \<longrightarrow> map_of d n = Some v)"
  using assms
proof (induction fs)
  case Nil
  then show ?case by simp
next
  case (Cons x fs)
  obtain n t dflt where x: "x = (n, t, dflt)" by (cases x)
  from Cons.prems have rest: "\<forall>(n, t, dflt) \<in> set fs.
             (case map_of kwargs n of Some v \<Rightarrow> h t v = Inr v | None \<Rightarrow> dflt \<noteq> None)"
    by simp
  from Cons.IH [OF rest] obtain d where
    d: "decode_pass h fs kwargs = Some d" "map fst d = map fst fs"
      "\<forall>n v. n \<in> fst ` set fs \<and> map_of kwargs n = Some v \<longrightarrow> map_of d n = Some v"
    by blast
  from Cons.prems x have hd:
    "case map_of kwargs n of Some v \<Rightarrow> h t v = Inr v | None \<Rightarrow> dflt \<noteq> None"
    by simp
  show ?case
  proof (cases "map_of kwargs n")
    case None
    then obtain dv where dv: "dflt = Some dv" using hd by auto
    have "decode_pass h (x # fs) kwargs = Some ((n, dv) # d)"
      using x None dv d(1) by simp
    moreover have "map fst ((n, dv) # d) = map fst (x # fs)"
      using x d(2) by simp
    moreover have "\<forall>m v. m \<in> fst ` set (x # fs) \<and> map_of kwargs m = Some v
                     \<longrightarrow> map_of ((n, dv) # d) m = Some v"
      using x None d(3) by auto
    ultimately show ?thesis by blast
  next
    case (Some v)
    then have hv: "h t v = Inr v" using hd by simp
    have "decode_pass h (x # fs) kwargs = Some ((n, v) # d)"
      using x Some hv d(1) by simp
    moreover have "map fst ((n, v) # d) = map fst (x # fs)"
      using x d(2) by simp
    moreover have "\<forall>m w. m \<in> fst ` set (x # fs) \<and> map_of kwargs m = Some w
                     \<longrightarrow> map_of ((n, v) # d) m = Some w"
      using x Some d(3) by auto
    ultimately show ?thesis by blast
  qed
qed

text \<open>
  C5. \<^verbatim>\<open>_deserializer\<close> returns a value that is already an instance of the target type
  unchanged; otherwise it calls the \<^verbatim>\<open>_decoder\<close> attribute of the target type when the
  type has one, on the type and the value; otherwise it calls the default deserializer.
  Consequently, when the conversion is the decode pass driven by this hook, coercing
  kwargs whose values are all instances of the types of their fields (a field that is
  left out having a default) succeeds, and the returned mapping has the fields of the
  record type and, for every field given in the kwargs, the very value given.
\<close>

theorem deserializer_order:
  "(isinst v t \<longrightarrow> deserializer isinst da t v dd = Inr v)
   \<and> (\<not> isinst v t \<and> da t = Some dec \<longrightarrow> deserializer isinst da t v dd = dec t v)
   \<and> (\<not> isinst v t \<and> da t = None \<longrightarrow> deserializer isinst da t v dd = dd t v)
   \<and> ((\<forall>d. decode_pass (dec_hook E st conn) (struct_fields cls) kwargs = Some d
             \<longrightarrow> convert_struct E (dec_hook E st conn) kwargs cls = Inr d)
        \<and> (\<forall>(n, ty, dflt) \<in> set (struct_fields cls).
              (case map_of kwargs n of
                 Some raw \<Rightarrow> isinstance E raw ty
               | None \<Rightarrow> dflt \<noteq> None))
        \<longrightarrow> (\<exists>d. parse_values_from_connection_kwargs E st cls conn kwargs = Inr d
                  \<and> map fst d = map fst (struct_fields cls)
                  \<and> (\<forall>n raw. n \<in> fst ` set (struct_fields cls) \<and> map_of kwargs n = Some raw
                        \<longrightarrow> map_of d n = Some raw)))"
proof -
  have rt: "\<exists>d. parse_values_from_connection_kwargs E st cls conn kwargs = Inr d
                  \<and> map fst d = map fst (struct_fields cls)
                  \<and> (\<forall>n raw. n \<in> fst ` set (struct_fields cls) \<and> map_of kwargs n = Some raw
                        \<longrightarrow> map_of d n = Some raw)"
    if c: "\<forall>d. decode_pass (dec_hook E st conn) (struct_fields cls) kwargs = Some d
             \<longrightarrow> convert_struct E (dec_hook E st conn) kwargs cls = Inr d"
    and i: "\<forall>(n, ty, dflt) \<in> set (struct_fields cls).
              (case map_of kwargs n of
                 Some raw \<Rightarrow> isinstance E raw ty
               | None \<Rightarrow> dflt \<noteq> None)"
  proof -
    have "\<forall>(n, ty, dflt) \<in> set (struct_fields cls).
              (case map_of kwargs n of
                 Some raw \<Rightarrow> dec_hook E st conn ty raw = Inr raw
               | None \<Rightarrow> dflt \<noteq> None)"
      using i by (auto simp: dec_hook_instance split: option.splits)
    from decode_pass_identity [OF this] obtain d where
      d: "decode_pass (dec_hook E st conn) (struct_fields cls) kwargs = Some d"
        "map fst d = map fst (struct_fields cls)"
        "\<forall>n raw. n \<in> fst ` set (struct_fields cls) \<and> map_of kwargs n = Some raw
             \<longrightarrow> map_of d n = Some raw"
      by blast
    have "convert_struct E (dec_hook E st conn) kwargs cls = Inr d"
      using c d(1) by blast
    then have "parse_values_from_connection_kwargs E st cls conn kwargs = Inr d"
      by (simp add: parse_values_from_connection_kwargs_def)
    then show ?thesis using d(2,3) by blast
  qed
  show ?thesis
    apply (intro conjI impI)
    subgoal by (simp add: deserializer_def)
    subgoal by (simp add: deserializer_def)
    subgoal by (simp add: deserializer_def)
    subgoal using rt by blast
    done
qed

theorem deserializer_order_witness:
  "deserializer (isinstance example_env) example_store (ClassT ''int'') (PInt 5)
      (default_deserializer example_connection) = Inr (PInt 5)
   \<and> deserializer (isinstance example_env) example_store (ClassT ''Path'') (PStr ''/tmp'')
      (default_deserializer example_connection) = Inr (PList [PStr ''/tmp''])
   \<and> deserializer (isinstance example_env) example_store (ClassT ''int'') (PStr ''5'')
      (default_deserializer example_connection) = Inl TypeError
   \<and> (\<exists>d. parse_values_from_connection_kwargs decoding_env example_store typed_fields
             example_connection typed_kwargs = Inr d
          \<and> map_of d ''id'' = Some (PInt 5) \<and> map_of d ''label'' = Some (PStr ''a''))"
proof -
  let ?i = "isinstance example_env"
  let ?d = "default_deserializer example_connection"
  let ?h = "dec_hook decoding_env example_store example_connection"
  have i1: "?i (PInt 5) (ClassT ''int'')" by (simp add: example_env_def)
  have i2: "\<not> ?i (PStr ''/tmp'') (ClassT ''Path'') \<and> example_store (ClassT ''Path'') = Some path_decoder"
    by (simp add: example_env_def example_store_def)
  have i3: "\<not> ?i (PStr ''5'') (ClassT ''int'') \<and> example_store (ClassT ''int'') = None"
    by (simp add: example_env_def example_store_def)
  have c: "\<forall>d. decode_pass ?h (struct_fields typed_fields) typed_kwargs = Some d
             \<longrightarrow> convert_struct decoding_env ?h typed_kwargs typed_fields = Inr d"
    by (simp add: decoding_env_def)
  have i4: "\<forall>(n, ty, dflt) \<in> set (struct_fields typed_fields).
              (case map_of typed_kwargs n of
                 Some raw \<Rightarrow> isinstance decoding_env raw ty
               | None \<Rightarrow> dflt \<noteq> None)"
    by (simp add: typed_fields_def typed_kwargs_def decoding_env_def example_env_def)
  note T1 = deserializer_order [of ?i "PInt 5" "ClassT ''int''" example_store ?d path_decoder
             decoding_env example_store example_connection typed_fields typed_kwargs]
  note T2 = deserializer_order [of ?i "PStr ''/tmp''" "ClassT ''Path''" example_store ?d path_decoder
             decoding_env example_store example_connection typed_fields typed_kwargs]
  note T3 = deserializer_order [of ?i "PStr ''5''" "ClassT ''int''" example_store ?d path_decoder
             decoding_env example_store example_connection typed_fields typed_kwargs]
  have a: "deserializer ?i example_store (ClassT ''int'') (PInt 5) ?d = Inr (PInt 5)"
    using T1 [THEN conjunct1] i1 by (rule mp)
  have b: "deserializer ?i example_store (ClassT ''Path'') (PStr ''/tmp'') ?d
             = path_decoder (ClassT ''Path'') (PStr ''/tmp'')"
    using T2 [THEN conjunct2, THEN conjunct1] i2 by (rule mp)
  have cc: "deserializer ?i example_store (ClassT ''int'') (PStr ''5'') ?d
             = ?d (ClassT ''int'') (PStr ''5'')"
    using T3 [THEN conjunct2, THEN conjunct2, THEN conjunct1] i3 by (rule mp)
  have "\<exists>d. parse_values_from_connection_kwargs decoding_env example_store typed_fields
             example_connection typed_kwargs = Inr d
          \<and> map fst d = map fst (struct_fields typed_fields)
          \<and> (\<forall>n raw. n \<in> fst ` set (struct_fields typed_fields)
                        \<and> map_of typed_kwargs n = Some raw
                \<longrightarrow> map_of d n = Some raw)"
    using T1 [THEN conjunct2, THEN conjunct2, THEN conjunct2] c i4 by blast
  then obtain d where
    p: "parse_values_from_connection_kwargs decoding_env example_store typed_fields
             example_connection typed_kwargs = Inr d"
    and v: "\<forall>n raw. n \<in> fst ` set (struct_fields typed_fields)
                        \<and> map_of typed_kwargs n = Some raw
                \<longrightarrow> map_of d n = Some raw"
    by blast
  have k1: "''id'' \<in> fst ` set (struct_fields typed_fields)
            \<and> map_of typed_kwargs ''id'' = Some (PInt 5)"
    by (simp add: typed_fields_def typed_kwargs_def)
  have k2: "''label'' \<in> fst ` set (struct_fields typed_fields)
            \<and> map_of typed_kwargs ''label'' = Some (PStr ''a'')"
    by (simp add: typed_fields_def typed_kwargs_def)
  have "map_of d ''id'' = Some (PInt 5)" by (rule v [rule_format, OF k1])
  moreover have "map_of d ''label'' = Some (PStr ''a'')" by (rule v [rule_format, OF k2])
  ultimately have r: "\<exists>d. parse_values_from_connection_kwargs decoding_env example_store
             typed_fields example_connection typed_kwargs = Inr d
          \<and> map_of d ''id'' = Some (PInt 5) \<and> map_of d ''label'' = Some (PStr ''a'')"
    using p by blast
  show ?thesis
    unfolding a b cc using r by (simp add: path_decoder_def example_connection_def)
qed

section \<open>Constraint translation\<close>

lemma map_of_dict_set: "map_of (dict_set d k v) = (map_of d)(k \<mapsto> v)"
  by (induction d) (auto simp: fun_eq_iff)

lemma dict_pop_value:
  "fst (dict_pop d k) = (case map_of d k of Some v \<Rightarrow> v | None \<Rightarrow> PNone)"
  by (simp add: dict_pop_def split: option.splits)

lemma map_of_filter_key:
  "map_of (filter (\<lambda>(k', v'). k' \<noteq> k) d) k'' = (if k'' = k then None else map_of d k'')"
  by (induction d) auto

lemma dict_pop_rest:
  "map_of (snd (dict_pop d k)) k' = (if k' = k then None else map_of d k')"
  by (auto simp: dict_pop_def map_of_filter_key split: option.splits)

lemma dict_pop_distinct: "distinct (map fst d) \<Longrightarrow> distinct (map fst (snd (dict_pop d k)))"
  by (simp add: dict_pop_def distinct_map_filter split: option.splits)

lemma dict_pop_keys: "fst ` set (snd (dict_pop d k)) \<subseteq> fst ` set d"
  by (auto simp: dict_pop_def split: option.splits)

lemma meta_items_result:
  assumes "''extra'' \<notin> fst ` set kd" "distinct (map fst kd)"
    and "map_of mk ''extra'' = Some (PDict ex)"
  shows "\<exists>mk' ex'. meta_items known kd mk = Inr mk'
     \<and> map_of mk' ''extra'' = Some (PDict ex')
     \<and> (\<forall>k. k \<noteq> ''extra'' \<longrightarrow> map_of mk' k =
            (case map_of kd k of
               Some v \<Rightarrow> if known k \<and> v \<noteq> PNone then Some v else map_of mk k
             | None \<Rightarrow> map_of mk k))
     \<and> (\<forall>k. map_of ex' k =
            (case map_of kd k of
               Some v \<Rightarrow> if known k \<and> v \<noteq> PNone then map_of ex k else Some v
             | None \<Rightarrow> map_of ex k))"
  using assms
proof (induction kd arbitrary: mk ex)
  case Nil
  then show ?case by simp
next
  case (Cons kv rest)
  obtain k0 v0 where kv: "kv = (k0, v0)" by (cases kv)
  have k0: "k0 \<noteq> ''extra''" and r1: "''extra'' \<notin> fst ` set rest"
    and r2: "distinct (map fst rest)" and r3: "map_of rest k0 = None"
    using Cons.prems kv by (auto simp: map_of_eq_None_iff)
  show ?case
  proof (cases "known k0 \<and> v0 \<noteq> PNone")
    case True
    have e: "map_of (dict_set mk k0 v0) ''extra'' = Some (PDict ex)"
      using Cons.prems(3) k0 by (simp add: map_of_dict_set)
    obtain mk' ex' where
      a: "meta_items known rest (dict_set mk k0 v0) = Inr mk'"
      and b: "map_of mk' ''extra'' = Some (PDict ex')"
      and c: "\<forall>k. k \<noteq> ''extra'' \<longrightarrow> map_of mk' k =
            (case map_of rest k of
               Some v \<Rightarrow> if known k \<and> v \<noteq> PNone then Some v else map_of (dict_set mk k0 v0) k
             | None \<Rightarrow> map_of (dict_set mk k0 v0) k)"
      and d: "\<forall>k. map_of ex' k =
            (case map_of rest k of
               Some v \<Rightarrow> if known k \<and> v \<noteq> PNone then map_of ex k else Some v
             | None \<Rightarrow> map_of ex k)"
      using Cons.IH [OF r1 r2 e] by blast
    have "meta_items known (kv # rest) mk = Inr mk'"
      using a True kv by simp
    moreover have "\<forall>k. k \<noteq> ''extra'' \<longrightarrow> map_of mk' k =
            (case map_of (kv # rest) k of
               Some v \<Rightarrow> if known k \<and> v \<noteq> PNone then Some v else map_of mk k
             | None \<Rightarrow> map_of mk k)"
      using c True kv r3 by (auto simp: map_of_dict_set split: option.splits)
    moreover have "\<forall>k. map_of ex' k =
            (case map_of (kv # rest) k of
               Some v \<Rightarrow> if known k \<and> v \<noteq> PNone then map_of ex k else Some v
             | None \<Rightarrow> map_of ex k)"
      using d True kv r3 by (auto split: option.splits)
    ultimately show ?thesis using b by blast
  next
    case False
    let ?mk1 = "dict_set mk ''extra'' (PDict (dict_set ex k0 v0))"
    have s: "extra_set mk k0 v0 = Inr ?mk1"
      using Cons.prems(3) by (simp add: extra_set_def)
    have e: "map_of ?mk1 ''extra'' = Some (PDict (dict_set ex k0 v0))"
      by (simp add: map_of_dict_set)
    obtain mk' ex' where
      a: "meta_items known rest ?mk1 = Inr mk'"
      and b: "map_of mk' ''extra'' = Some (PDict ex')"
      and c: "\<forall>k. k \<noteq> ''extra'' \<longrightarrow> map_of mk' k =
            (case map_of rest k of
               Some v \<Rightarrow> if known k \<and> v \<noteq> PNone then Some v else map_of ?mk1 k
             | None \<Rightarrow> map_of ?mk1 k)"
      and d: "\<forall>k. map_of ex' k =
            (case map_of rest k of
               Some v \<Rightarrow> if known k \<and> v \<noteq> PNone then map_of (dict_set ex k0 v0) k else Some v
             | None \<Rightarrow> map_of (dict_set ex k0 v0) k)"
      using Cons.IH [OF r1 r2 e] by blast
    have "meta_items known (kv # rest) mk = Inr mk'"
      using a False kv s by auto
    moreover have "\<forall>k. k \<noteq> ''extra'' \<longrightarrow> map_of mk' k =
            (case map_of (kv # rest) k of
               Some v \<Rightarrow> if known k \<and> v \<noteq> PNone then Some v else map_of mk k
             | None \<Rightarrow> map_of mk k)"
      using c False kv r3 by (auto simp: map_of_dict_set split: option.splits)
    moreover have "\<forall>k. map_of ex' k =
            (case map_of (kv # rest) k of
               Some v \<Rightarrow> if known k \<and> v \<noteq> PNone then map_of ex k else Some v
             | None \<Rightarrow> map_of ex k)"
      using d False kv r3 by (auto simp: map_of_dict_set split: option.splits)
    ultimately show ?thesis using b by blast
  qed
qed


lemma meta_kwargs_of_result:
  assumes "''extra'' \<notin> fst ` set kd" "distinct (map fst kd)"
  shows "\<exists>mk ex. meta_kwargs_of known kd = Inr mk
     \<and> map_of mk ''extra'' = Some (PDict ex)
     \<and> (\<forall>k. k \<noteq> ''extra'' \<longrightarrow> map_of mk k =
            (if k = ''min_items'' \<or> k = ''max_items'' then None
             else case map_of kd k of
               Some v \<Rightarrow>
                 if known k \<and> v \<noteq> PNone then Some v
                 else if k = ''min_length'' \<and> truthy (fst (dict_pop kd ''min_items''))
                 then Some (fst (dict_pop kd ''min_items''))
                 else if k = ''max_length'' \<and> truthy (fst (dict_pop kd ''max_items''))
                 then Some (fst (dict_pop kd ''max_items''))
                 else None
             | None \<Rightarrow>
                 if k = ''min_length'' \<and> truthy (fst (dict_pop kd ''min_items''))
                 then Some (fst (dict_pop kd ''min_items''))
                 else if k = ''max_length'' \<and> truthy (fst (dict_pop kd ''max_items''))
                 then Some (fst (dict_pop kd ''max_items''))
                 else None))
     \<and> (\<forall>k. map_of ex k =
            (if k = ''min_items'' \<or> k = ''max_items'' then None
             else case map_of kd k of
               Some v \<Rightarrow> if known k \<and> v \<noteq> PNone then None else Some v
             | None \<Rightarrow> None))"
proof -
  let ?mi = "fst (dict_pop kd ''min_items'')"
  let ?kd1 = "snd (dict_pop kd ''min_items'')"
  let ?ma = "fst (dict_pop ?kd1 ''max_items'')"
  let ?kd2 = "snd (dict_pop ?kd1 ''max_items'')"
  let ?mk1 = "if truthy ?mi then dict_set [(''extra'', PDict [])] ''min_length'' ?mi
              else [(''extra'', PDict [])]"
  let ?mk2 = "if truthy ?ma then dict_set ?mk1 ''max_length'' ?ma else ?mk1"
  have ma: "?ma = fst (dict_pop kd ''max_items'')"
    by (simp add: dict_pop_value dict_pop_rest)
  have unf: "meta_kwargs_of known kd = meta_items known ?kd2 ?mk2"
    by (simp add: meta_kwargs_of_def Let_def split_def)
  have k2: "''extra'' \<notin> fst ` set ?kd2"
    using assms(1) dict_pop_keys by blast
  have d2: "distinct (map fst ?kd2)"
    using assms(2) by (simp add: dict_pop_distinct)
  have e2: "map_of ?mk2 ''extra'' = Some (PDict [])"
    by (simp add: map_of_dict_set)
  have m2: "map_of ?kd2 k = (if k = ''min_items'' \<or> k = ''max_items'' then None else map_of kd k)"
    for k by (simp add: dict_pop_rest)
  have b2: "map_of ?mk2 k =
              (if k = ''extra'' then Some (PDict [])
               else if k = ''max_length'' \<and> truthy ?ma then Some ?ma
               else if k = ''min_length'' \<and> truthy ?mi then Some ?mi
               else None)" for k
    by (simp add: map_of_dict_set)
  obtain mk ex where
    a: "meta_items known ?kd2 ?mk2 = Inr mk"
    and b: "map_of mk ''extra'' = Some (PDict ex)"
    and c: "\<forall>k. k \<noteq> ''extra'' \<longrightarrow> map_of mk k =
            (case map_of ?kd2 k of
               Some v \<Rightarrow> if known k \<and> v \<noteq> PNone then Some v else map_of ?mk2 k
             | None \<Rightarrow> map_of ?mk2 k)"
    and d: "\<forall>k. map_of ex k =
            (case map_of ?kd2 k of
               Some v \<Rightarrow> if known k \<and> v \<noteq> PNone then map_of [] k else Some v
             | None \<Rightarrow> map_of [] k)"
    using meta_items_result [OF k2 d2 e2, of known] by blast
  have c': "\<forall>k. k \<noteq> ''extra'' \<longrightarrow> map_of mk k =
            (if k = ''min_items'' \<or> k = ''max_items'' then None
             else case map_of kd k of
               Some v \<Rightarrow>
                 if known k \<and> v \<noteq> PNone then Some v
                 else if k = ''min_length'' \<and> truthy (fst (dict_pop kd ''min_items''))
                 then Some (fst (dict_pop kd ''min_items''))
                 else if k = ''max_length'' \<and> truthy (fst (dict_pop kd ''max_items''))
                 then Some (fst (dict_pop kd ''max_items''))
                 else None
             | None \<Rightarrow>
                 if k = ''min_length'' \<and> truthy (fst (dict_pop kd ''min_items''))
                 then Some (fst (dict_pop kd ''min_items''))
                 else if k = ''max_length'' \<and> truthy (fst (dict_pop kd ''max_items''))
                 then Some (fst (dict_pop kd ''max_items''))
                 else None)"
  proof (intro allI impI)
    fix k :: string
    assume ne: "k \<noteq> ''extra''"
    have "map_of mk k =
            (case map_of ?kd2 k of
               Some v \<Rightarrow> if known k \<and> v \<noteq> PNone then Some v else map_of ?mk2 k
             | None \<Rightarrow> map_of ?mk2 k)"
      using c ne by blast
    then show "map_of mk k =
            (if k = ''min_items'' \<or> k = ''max_items'' then None
             else case map_of kd k of
               Some v \<Rightarrow>
                 if known k \<and> v \<noteq> PNone then Some v
                 else if k = ''min_length'' \<and> truthy (fst (dict_pop kd ''min_items''))
                 then Some (fst (dict_pop kd ''min_items''))
                 else if k = ''max_length'' \<and> truthy (fst (dict_pop kd ''max_items''))
                 then Some (fst (dict_pop kd ''max_items''))
                 else None
             | None \<Rightarrow>
                 if k = ''min_length'' \<and> truthy (fst (dict_pop kd ''min_items''))
                 then Some (fst (dict_pop kd ''min_items''))
                 else if k = ''max_length'' \<and> truthy (fst (dict_pop kd ''max_items''))
                 then Some (fst (dict_pop kd ''max_items''))
                 else None)"
      unfolding m2 b2 ma using ne by (auto split: option.splits)
  qed
  have d': "\<forall>k. map_of ex k =
            (if k = ''min_items'' \<or> k = ''max_items'' then None
             else case map_of kd k of
               Some v \<Rightarrow> if known k \<and> v \<noteq> PNone then None else Some v
             | None \<Rightarrow> None)"
    using d unfolding m2 by (auto split: option.splits)
  show ?thesis using unf a b c' d' by auto
qed

text \<open>
  C6, as amended. For a constraint dict with distinct keys, none of them \<^verbatim>\<open>extra\<close>, the
  translation does not raise, and: \<^verbatim>\<open>min_items\<close> and \<^verbatim>\<open>max_items\<close> with a true value
  become \<^verbatim>\<open>min_length\<close> and \<^verbatim>\<open>max_length\<close> (unless a known key of that name with a
  value other than \<^verbatim>\<open>None\<close> overwrites them) and never appear under their own names;
  every other key that \<^verbatim>\<open>Meta\<close> knows and whose value is not \<^verbatim>\<open>None\<close> maps directly and is
  not under \<^verbatim>\<open>extra\<close>; every other key that \<^verbatim>\<open>Meta\<close> does not know, or whose value is
  \<^verbatim>\<open>None\<close>, is kept under \<^verbatim>\<open>extra\<close> with its value; a key that is absent from the dict
  produces no entry, and neither does a false \<^verbatim>\<open>min_items\<close> or \<^verbatim>\<open>max_items\<close>.
\<close>

theorem meta_kwargs_translation:
  assumes "''extra'' \<notin> fst ` set kd" and "distinct (map fst kd)"
  shows "(\<exists>mk. meta_kwargs_of known kd = Inr mk)
    \<and> (\<forall>v. map_of kd ''min_items'' = Some v \<and> truthy v
            \<and> \<not> (known ''min_length''
                   \<and> (\<exists>w. map_of kd ''min_length'' = Some w \<and> w \<noteq> PNone))
          \<longrightarrow> meta_entry (meta_kwargs_of known kd) ''min_length'' = Some v)
    \<and> (\<forall>v. map_of kd ''max_items'' = Some v \<and> truthy v
            \<and> \<not> (known ''max_length''
                   \<and> (\<exists>w. map_of kd ''max_length'' = Some w \<and> w \<noteq> PNone))
          \<longrightarrow> meta_entry (meta_kwargs_of known kd) ''max_length'' = Some v)
    \<and> meta_entry (meta_kwargs_of known kd) ''min_items'' = None
    \<and> meta_entry (meta_kwargs_of known kd) ''max_items'' = None
    \<and> extra_entry (meta_kwargs_of known kd) ''min_items'' = None
    \<and> extra_entry (meta_kwargs_of known kd) ''max_items'' = None
    \<and> (\<forall>k v. k \<noteq> ''min_items'' \<and> k \<noteq> ''max_items'' \<and> map_of kd k = Some v
            \<and> known k \<and> v \<noteq> PNone
          \<longrightarrow> meta_entry (meta_kwargs_of known kd) k = Some v
              \<and> extra_entry (meta_kwargs_of known kd) k = None)
    \<and> (\<forall>k v. k \<noteq> ''min_items'' \<and> k \<noteq> ''max_items'' \<and> map_of kd k = Some v
            \<and> (\<not> known k \<or> v = PNone)
          \<longrightarrow> extra_entry (meta_kwargs_of known kd) k = Some v)
    \<and> (\<forall>k. map_of kd k = None \<longrightarrow> extra_entry (meta_kwargs_of known kd) k = None)
    \<and> (\<forall>k. k \<noteq> ''extra'' \<and> k \<noteq> ''min_length'' \<and> k \<noteq> ''max_length''
            \<and> map_of kd k = None
          \<longrightarrow> meta_entry (meta_kwargs_of known kd) k = None)
    \<and> (\<not> truthy (fst (dict_pop kd ''min_items'')) \<and> map_of kd ''min_length'' = None
          \<longrightarrow> meta_entry (meta_kwargs_of known kd) ''min_length'' = None)
    \<and> (\<not> truthy (fst (dict_pop kd ''max_items'')) \<and> map_of kd ''max_length'' = None
          \<longrightarrow> meta_entry (meta_kwargs_of known kd) ''max_length'' = None)"
proof -
  obtain mk ex where
    a: "meta_kwargs_of known kd = Inr mk"
    and b: "map_of mk ''extra'' = Some (PDict ex)"
    and c: "\<And>k. k \<noteq> ''extra'' \<Longrightarrow> map_of mk k =
            (if k = ''min_items'' \<or> k = ''max_items'' then None
             else case map_of kd k of
               Some v \<Rightarrow>
                 if known k \<and> v \<noteq> PNone then Some v
                 else if k = ''min_length'' \<and> truthy (fst (dict_pop kd ''min_items''))
                 then Some (fst (dict_pop kd ''min_items''))
                 else if k = ''max_length'' \<and> truthy (fst (dict_pop kd ''max_items''))
                 then Some (fst (dict_pop kd ''max_items''))
                 else None
             | None \<Rightarrow>
                 if k = ''min_length'' \<and> truthy (fst (dict_pop kd ''min_items''))
                 then Some (fst (dict_pop kd ''min_items''))
                 else if k = ''max_length'' \<and> truthy (fst (dict_pop kd ''max_items''))
                 then Some (fst (dict_pop kd ''max_items''))
                 else None)"
    and d: "\<And>k. map_of ex k =
            (if k = ''min_items'' \<or> k = ''max_items'' then None
             else case map_of kd k of
               Some v \<Rightarrow> if known k \<and> v \<noteq> PNone then None else Some v
             | None \<Rightarrow> None)"
    using meta_kwargs_of_result [OF assms, of known] by blast
  have me: "meta_entry (meta_kwargs_of known kd) k = map_of mk k" for k
    by (simp add: meta_entry_def a)
  have ee: "extra_entry (meta_kwargs_of known kd) k = map_of ex k" for k
    by (simp add: extra_entry_def a b)
  have x: "map_of kd ''extra'' = None"
    using assms(1) by (simp add: map_of_eq_None_iff)
  have p1: "map_of kd ''min_items'' = Some v \<Longrightarrow> fst (dict_pop kd ''min_items'') = v" for v
    by (simp add: dict_pop_value)
  have p2: "map_of kd ''max_items'' = Some v \<Longrightarrow> fst (dict_pop kd ''max_items'') = v" for v
    by (simp add: dict_pop_value)
  have c1: "map_of mk ''min_length'' = Some v"
    if "map_of kd ''min_items'' = Some v \<and> truthy v
            \<and> \<not> (known ''min_length''
                   \<and> (\<exists>w. map_of kd ''min_length'' = Some w \<and> w \<noteq> PNone))" for v
    using that p1 [of v] c [of "''min_length''"] by (auto split: option.splits)
  have c2: "map_of mk ''max_length'' = Some v"
    if "map_of kd ''max_items'' = Some v \<and> truthy v
            \<and> \<not> (known ''max_length''
                   \<and> (\<exists>w. map_of kd ''max_length'' = Some w \<and> w \<noteq> PNone))" for v
    using that p2 [of v] c [of "''max_length''"] by (auto split: option.splits)
  have c3: "map_of mk ''min_items'' = None \<and> map_of mk ''max_items'' = None"
    using c [of "''min_items''"] c [of "''max_items''"] by simp
  have c4: "map_of ex ''min_items'' = None \<and> map_of ex ''max_items'' = None"
    using d [of "''min_items''"] d [of "''max_items''"] by simp
  have c5: "map_of mk k = Some v \<and> map_of ex k = None"
    if "k \<noteq> ''min_items'' \<and> k \<noteq> ''max_items'' \<and> map_of kd k = Some v
            \<and> known k \<and> v \<noteq> PNone" for k v
  proof -
    have "k \<noteq> ''extra''" using that x by auto
    then show ?thesis using that c [of k] d [of k] by simp
  qed
  have c6: "map_of ex k = Some v"
    if "k \<noteq> ''min_items'' \<and> k \<noteq> ''max_items'' \<and> map_of kd k = Some v
            \<and> (\<not> known k \<or> v = PNone)" for k v
    using that d [of k] by auto
  have c7: "map_of ex k = None" if "map_of kd k = None" for k
    using that d [of k] by simp
  have c8: "map_of mk k = None"
    if "k \<noteq> ''extra'' \<and> k \<noteq> ''min_length'' \<and> k \<noteq> ''max_length''
            \<and> map_of kd k = None" for k
    using that c [of k] by simp
  have c9: "map_of mk ''min_length'' = None"
    if "\<not> truthy (fst (dict_pop kd ''min_items'')) \<and> map_of kd ''min_length'' = None"
    using that c [of "''min_length''"] by simp
  have c10: "map_of mk ''max_length'' = None"
    if "\<not> truthy (fst (dict_pop kd ''max_items'')) \<and> map_of kd ''max_length'' = None"
    using that c [of "''max_length''"] by simp
  show ?thesis
    unfolding me ee
    apply (intro conjI allI impI)
    subgoal using a by blast
    subgoal using c1 by blast
    subgoal using c2 by blast
    subgoal using c3 by blast
    subgoal using c3 by blast
    subgoal using c4 by blast
    subgoal using c4 by blast
    subgoal using c5 by blast
    subgoal using c5 by blast
    subgoal using c6 by blast
    subgoal using c7 by blast
    subgoal using c8 by blast
    subgoal using c9 by blast
    subgoal using c10 by blast
    done
qed

theorem meta_kwargs_translation_witness:
  "meta_entry (meta_kwargs_of (hasattr_Meta example_env) example_constraints) ''min_length''
     = Some (PInt 2)
   \<and> meta_entry (meta_kwargs_of (hasattr_Meta example_env) example_constraints) ''gt''
     = Some (PInt 0)
   \<and> extra_entry (meta_kwargs_of (hasattr_Meta example_env) example_constraints) ''format''
     = Some (PStr ''x'')
   \<and> extra_entry (meta_kwargs_of (hasattr_Meta example_env) example_constraints) ''ge''
     = Some PNone
   \<and> meta_entry (meta_kwargs_of (hasattr_Meta example_env) example_constraints) ''max_length''
     = None"
proof -
  let ?K = "hasattr_Meta example_env"
  have h1: "''extra'' \<notin> fst ` set example_constraints"
    by (simp add: example_constraints_def)
  have h2: "distinct (map fst example_constraints)"
    by (simp add: example_constraints_def)
  note T = meta_kwargs_translation [OF h1 h2, of ?K]
  have k1: "map_of example_constraints ''min_items'' = Some (PInt 2) \<and> truthy (PInt 2)
            \<and> \<not> (?K ''min_length''
                   \<and> (\<exists>w. map_of example_constraints ''min_length'' = Some w \<and> w \<noteq> PNone))"
    by (simp add: example_constraints_def)
  have k2: "''gt'' \<noteq> ''min_items'' \<and> ''gt'' \<noteq> ''max_items''
            \<and> map_of example_constraints ''gt'' = Some (PInt 0) \<and> ?K ''gt'' \<and> PInt 0 \<noteq> PNone"
    by (simp add: example_constraints_def example_env_def MSGSPEC_CONSTRAINT_FIELDS_def)
  have k3: "''format'' \<noteq> ''min_items'' \<and> ''format'' \<noteq> ''max_items''
            \<and> map_of example_constraints ''format'' = Some (PStr ''x'')
            \<and> (\<not> ?K ''format'' \<or> PStr ''x'' = PNone)"
    by (simp add: example_constraints_def example_env_def MSGSPEC_CONSTRAINT_FIELDS_def)
  have k4: "''ge'' \<noteq> ''min_items'' \<and> ''ge'' \<noteq> ''max_items''
            \<and> map_of example_constraints ''ge'' = Some PNone
            \<and> (\<not> ?K ''ge'' \<or> PNone = PNone)"
    by (simp add: example_constraints_def)
  have k5: "\<not> truthy (fst (dict_pop example_constraints ''max_items''))
            \<and> map_of example_constraints ''max_length'' = None"
    by (simp add: example_constraints_def dict_pop_def)
  note t1 = T [THEN conjunct2, THEN conjunct1]
  note t2 = T [THEN conjunct2, THEN conjunct2, THEN conjunct2, THEN conjunct2, THEN conjunct2, THEN conjunct2, THEN conjunct2, THEN conjunct1]
  note t3 = T [THEN conjunct2, THEN conjunct2, THEN conjunct2, THEN conjunct2, THEN conjunct2, THEN conjunct2, THEN conjunct2, THEN conjunct2, THEN conjunct1]
  note t4 = T [THEN conjunct2, THEN conjunct2, THEN conjunct2, THEN conjunct2, THEN conjunct2, THEN conjunct2, THEN conjunct2, THEN conjunct2, THEN conjunct2, THEN conjunct2, THEN conjunct2, THEN conjunct2]
  have r1: "meta_entry (meta_kwargs_of ?K example_constraints) ''min_length'' = Some (PInt 2)"
    by (rule t1 [rule_format, OF k1])
  have r2: "meta_entry (meta_kwargs_of ?K example_constraints) ''gt'' = Some (PInt 0)"
    by (rule t2 [rule_format, OF k2, THEN conjunct1])
  have r3: "extra_entry (meta_kwargs_of ?K example_constraints) ''format'' = Some (PStr ''x'')"
    by (rule t3 [rule_format, OF k3])
  have r4: "extra_entry (meta_kwargs_of ?K example_constraints) ''ge'' = Some PNone"
    by (rule t3 [rule_format, OF k4])
  have r5: "meta_entry (meta_kwargs_of ?K example_constraints) ''max_length'' = None"
    by (rule t4 [rule_format, OF k5])
  show ?thesis using r1 r2 r3 r4 r5 by simp
qed

text \<open>
  The claim as stated fails: a known key whose value is \<^verbatim>\<open>None\<close> is not left out, it
  produces an entry under \<^verbatim>\<open>extra\<close>.
\<close>

theorem meta_kwargs_none_counterexample:
  "meta_kwargs_of (hasattr_Meta example_env) [(''gt'', PNone)]
     = Inr [(''extra'', PDict [(''gt'', PNone)])]"
  by (simp add: meta_kwargs_of_def dict_pop_def extra_set_def)

section \<open>Annotations of union types\<close>

lemma no_default_decoder:
  "get_decoder_for_type example_env (ClassT c) (DEFAULT_TYPE_DECODERS example_env)
     = (if c \<in> {''Path'', ''PurePath'', ''ImmutableState'', ''UUID''}
        then Some (\<lambda>t v. call_type example_env t v) else None)"
  by (simp add: example_env_def DEFAULT_TYPE_DECODERS_def)

text \<open>
  C1. The claim is that the annotation of a union keeps every member other than
  \<^verbatim>\<open>None\<close>, under \<^verbatim>\<open>Optional\<close> when \<^verbatim>\<open>None\<close> was a member and under \<^verbatim>\<open>Union\<close> otherwise.
  \<^verbatim>\<open>_create_annotation\<close> does so for a union without \<^verbatim>\<open>None\<close>, but for an optional
  union it returns \<^verbatim>\<open>Optional[types[0]]\<close>: evaluated on the parameter
  \<^verbatim>\<open>x: Optional[Union[int, str]]\<close> it yields \<^verbatim>\<open>Optional[int]\<close>, and the member \<^verbatim>\<open>str\<close> is
  lost, while \<^verbatim>\<open>x: Union[int, str]\<close> keeps both members.
\<close>

theorem create_annotation_optional_union_drops_member:
  "create_annotation example_env False (DEFAULT_TYPE_DECODERS example_env) None
      optional_union_field (\<lambda>t. None)
     = Inr (OptionalT (ClassT ''int''), (\<lambda>t. None))
   \<and> create_annotation example_env False (DEFAULT_TYPE_DECODERS example_env) None
      plain_union_field (\<lambda>t. None)
     = Inr (UnionT [ClassT ''int'', ClassT ''str''], (\<lambda>t. None))"
proof -
  have n: "normalize_annotation example_env fd dto = fd_annotation fd" for fd dto
    by (simp add: example_env_def)
  have a: "create_annotation example_env False (DEFAULT_TYPE_DECODERS example_env) None
             (plain_field ''x'' (ClassT ''int'')) st = Inr (ClassT ''int'', st)" for st
    by (simp add: plain_field_def n no_default_decoder Let_def)
  have b: "create_annotation example_env False (DEFAULT_TYPE_DECODERS example_env) None
             (plain_field ''x'' (ClassT ''str'')) st = Inr (ClassT ''str'', st)" for st
    by (simp add: plain_field_def n no_default_decoder Let_def)
  have c: "fd_annotation (plain_field nm t) = t" for nm t
    by (simp add: plain_field_def)
  show ?thesis
    by (simp add: optional_union_field_def plain_union_field_def n a b c Let_def)
qed

section \<open>Required fields\<close>

lemma create_example:
  "create (failing_env x) {''db''} (Some ''get_item'') False example_signature None (\<lambda>t. None)
     = Inr (example_model, (\<lambda>t. None))"
proof -
  define E where "E = failing_env x"
  have that: "E = example_env\<lparr>convert_struct := (\<lambda>h kwargs cls. Inl x)\<rparr>"
    by (simp add: E_def failing_env_def)
  have n: "normalize_annotation E fd dto = fd_annotation fd" for fd dto
    by (simp add: that example_env_def)
  have g: "get_decoder_for_type E (ClassT ''int'') (DEFAULT_TYPE_DECODERS E) = None"
          "get_decoder_for_type E (ClassT ''str'') (DEFAULT_TYPE_DECODERS E) = None"
    by (simp_all add: that example_env_def DEFAULT_TYPE_DECODERS_def)
  have a: "create_annotation E False (DEFAULT_TYPE_DECODERS E) m
             (plain_field nm (ClassT ''int'')) st = Inr (case m of None \<Rightarrow> ClassT ''int'' | Some x \<Rightarrow> AnnotatedT (ClassT ''int'') x, st)" for st m nm
    by (simp add: plain_field_def n g Let_def split: option.splits)
  have b: "create_annotation E False (DEFAULT_TYPE_DECODERS E) m
             (plain_field nm (ClassT ''str'')) st = Inr (case m of None \<Rightarrow> ClassT ''str'' | Some x \<Rightarrow> AnnotatedT (ClassT ''str'') x, st)" for st m nm
    by (simp add: plain_field_def n g Let_def split: option.splits)
  have c: "create_annotation E False (DEFAULT_TYPE_DECODERS E) m
             (plain_field nm AnyT) st = Inr (AnyT, st)" for st m nm
    by (simp add: plain_field_def n Let_def)
  have p: "fd_annotation (plain_field nm t) = t" "fd_name (plain_field nm t) = nm"
          "kwarg_definition (plain_field nm t) = None" "\<not> has_default (plain_field nm t)" for nm t
    by (simp_all add: plain_field_def)
  have m1: "meta_data_of E (plain_field nm t) = Inr None" for nm t
    by (simp add: meta_data_of_def p)
  have mk: "meta_kwargs_of k [] = Inr [(''extra'', PDict [])]" for k
    by (simp add: meta_kwargs_of_def dict_pop_def)
  have m2: "meta_data_of E (FieldDefinition ''token'' (ClassT ''str'') [] False False
           (Some (ParameterKwarg None (Some ''token'') [])) False PNone)
        = Inr (Some [(''extra'', PDict [])])"
    by (simp add: meta_data_of_def mk that example_env_def)
  have m3: "meta_data_of E (FieldDefinition ''name'' (UnionT [ClassT ''str'', NoneT])
           [plain_field ''name'' (ClassT ''str''), plain_field ''name'' NoneT]
           True True None True PNone) = Inr None"
    by (simp add: meta_data_of_def)
  have t: "create_annotation E False (DEFAULT_TYPE_DECODERS E) (Some [(''extra'', PDict [])])
             (FieldDefinition ''token'' (ClassT ''str'') [] False False
           (Some (ParameterKwarg None (Some ''token'') [])) False PNone) st
           = Inr (AnnotatedT (ClassT ''str'') [(''extra'', PDict [])], st)" for st
    by (simp add: n g Let_def)
  have u: "create_annotation E False (DEFAULT_TYPE_DECODERS E) None
             (FieldDefinition ''name'' (UnionT [ClassT ''str'', NoneT])
           [plain_field ''name'' (ClassT ''str''), plain_field ''name'' NoneT]
           True True None True PNone) st
           = Inr (OptionalT (ClassT ''str''), st)" for st
    by (simp add: n b p Let_def)
  have v: "validate_signature_dependencies E s nm ps = Inr s" for s nm ps
    by (simp add: that example_env_def)
  have l: "struct_fields_loop E False (DEFAULT_TYPE_DECODERS E) (map snd example_parameters)
             (\<lambda>t. None)
           = Inr (struct_fields example_model, (\<lambda>t. None))"
    by (simp add: example_parameters_def a c m1 m2 m3 t u p field_default_def example_model_def
             del: create_annotation.simps)
  have "create E {''db''} (Some ''get_item'') False example_signature None (\<lambda>t. None)
     = Inr (example_model, (\<lambda>t. None))"
    by (simp add: create_def Let_def v resolve_fn_name_def example_signature_def l)
       (simp add: example_model_def p)
  then show ?thesis by (simp add: E_def)
qed

lemma struct_fields_loop_defaults:
  "struct_fields_loop E dto tds fds st = Inr (fs, st')
   \<Longrightarrow> map (\<lambda>(n, a, d). (n, d)) fs = map (\<lambda>fd. (fd_name fd, field_default fd)) fds"
proof (induction fds arbitrary: st fs)
  case Nil
  then show ?case by simp
next
  case (Cons fd rest)
  from Cons.prems obtain m a s1 fs1 where
    "struct_fields_loop E dto tds rest s1 = Inr (fs1, st')"
    "fs = (fd_name fd, a, field_default fd) # fs1"
    by (auto split: sum.splits prod.splits)
  then show ?case using Cons.IH by simp
qed

lemma create_fields:
  assumes "create E deps fn dto parsed tds st0 = Inr (cls, st1)"
  shows "model_fields cls = parameters parsed"
    and "map (\<lambda>(n, a, d). (n, d)) (struct_fields cls)
           = map (\<lambda>(k, fd). (fd_name fd, field_default fd)) (parameters parsed)"
proof -
  from assms obtain dn fs where
    l: "struct_fields_loop E dto
          ((case tds of Some x \<Rightarrow> x | None \<Rightarrow> []) @ DEFAULT_TYPE_DECODERS E)
          (map snd (parameters parsed)) st0 = Inr (fs, st1)"
    and c: "cls = \<lparr>struct_name = resolve_fn_name fn @ ''_signature_model'',
                   struct_fields = fs, dependency_name_set = dn,
                   model_fields = parameters parsed,
                   return_annotation = fd_annotation (return_type parsed)\<rparr>"
    by (auto simp: create_def Let_def split: sum.splits prod.splits)
  show "model_fields cls = parameters parsed" using c by simp
  have "map (\<lambda>(n, a, d). (n, d)) fs
          = map (\<lambda>fd. (fd_name fd, field_default fd)) (map snd (parameters parsed))"
    using struct_fields_loop_defaults [OF l] .
  then show "map (\<lambda>(n, a, d). (n, d)) (struct_fields cls)
           = map (\<lambda>(k, fd). (fd_name fd, field_default fd)) (parameters parsed)"
    using c by (simp add: split_def comp_def)
qed

lemma create_required:
  assumes "create E deps fn dto parsed tds st0 = Inr (cls, st1)"
    and "(f, fd) \<in> set (parameters parsed)" and "\<not> has_default fd"
  shows "\<exists>a. (fd_name fd, a, None) \<in> set (struct_fields cls)"
proof -
  have "(fd_name fd, field_default fd)
          \<in> set (map (\<lambda>(k, fd). (fd_name fd, field_default fd)) (parameters parsed))"
    using assms(2) by force
  then have "(fd_name fd, None) \<in> set (map (\<lambda>(n, a, d). (n, d)) (struct_fields cls))"
    using create_fields(2) [OF assms(1)] assms(3) by (simp add: field_default_def)
  then show ?thesis by auto
qed

lemma collect_loop_omitted:
  assumes "map_of kwargs f = None" and "f \<in> set names" and "distinct names"
  shows "filter (\<lambda>c. fst c = f) (collect_loop E cls h kwargs names) = [(f, str_KeyError f)]"
  using assms(2,3)
proof (induction names)
  case Nil
  then show ?case by simp
next
  case (Cons n ns)
  have other: "filter (\<lambda>c. fst c = f) (collect_loop E cls h kwargs ns) = []" if "f \<notin> set ns"
    using that by (induction ns) (auto split: option.splits)
  show ?case
  proof (cases "n = f")
    case True
    then have "f \<notin> set ns" using Cons.prems by simp
    then show ?thesis using True other assms(1) by (simp add: collect_field_def)
  next
    case False
    then have "f \<in> set ns" "distinct ns" using Cons.prems by auto
    then show ?thesis using False Cons.IH by (simp split: option.splits)
  qed
qed


lemma ERR_RE_search_KeyError: "ERR_RE_search (str_KeyError f) = None"
proof (cases "ERR_RE_search (str_KeyError f)")
  case None
  then show ?thesis .
next
  case (Some g)
  have l: "last (str_KeyError f) = CHR 0x27"
    by (simp add: str_KeyError_def)
  from ERR_RE_search_sound [OF Some] obtain pre where
    "str_KeyError f = pre @ ERR_RE_head @ g @ [CHR 0x60]
     \<or> str_KeyError f = pre @ ERR_RE_head @ g @ [CHR 0x60, CHR 0x0A]"
    by blast
  then have "last (str_KeyError f) = CHR 0x60 \<or> last (str_KeyError f) = CHR 0x0A"
    by (metis append_assoc last_ConsL last_ConsR last_appendR list.distinct(1))
  then show ?thesis using l by simp
qed

text \<open>
  C7, as amended. A parameter without an explicit default becomes a struct field with
  \<^verbatim>\<open>NODEFAULT\<close>. When the raw kwargs omit such a field and the batch conversion
  rejects them with an unstructured validation failure, the replay yields exactly one
  entry for that field, and the message built from the field name alone is among the
  replayed messages. For the body parameter \<^verbatim>\<open>data\<close> that message has the key
  \<^verbatim>\<open>data\<close> and the source body; for a name that does not start with \<^verbatim>\<open>data\<close> it has
  the name as its key, and its source is query when the name is a query parameter name
  of the connection, otherwise cookie, header or query (in this order) from the
  field's \<^verbatim>\<open>ParameterKwarg\<close>, otherwise absent. In both cases the message is
  client-caused exactly when the name is not in the dependency name set. If the
  message is client-caused the call fails with a client validation exception that
  carries it; if no replayed message is client-caused the call fails with the internal
  server exception.
\<close>

theorem omitted_required_field:
  assumes cr: "create E deps fn dto parsed tds st0 = Inr (cls, st)"
    and par: "(f, fd) \<in> set (parameters parsed)"
    and dist: "distinct (map fst (parameters parsed))"
    and req: "\<not> has_default fd"
    and om: "map_of kwargs f = None"
    and cv: "convert_struct E (dec_hook E st conn) kwargs cls = Inl (ValidationError e)"
  shows "(\<exists>a. (fd_name fd, a, None) \<in> set (struct_fields cls))
    \<and> filter (\<lambda>c. fst c = f) (collect_errors E cls (dec_hook E st conn) kwargs)
        = [(f, str_KeyError f)]
    \<and> build_error_message cls [f] e conn
        \<in> set (replay_messages cls conn e (collect_errors E cls (dec_hook E st conn) kwargs))
    \<and> (is_client_error cls (build_error_message cls [f] e conn)
         \<longrightarrow> (\<exists>d ms. parse_values_from_connection_kwargs E st cls conn kwargs
                        = Inl (ValidationException d ms)
                      \<and> build_error_message cls [f] e conn \<in> set ms))
    \<and> (\<not> startswith f ''data''
         \<longrightarrow> key (build_error_message cls [f] e conn) = Some f
             \<and> (is_client_error cls (build_error_message cls [f] e conn)
                  \<longleftrightarrow> f \<notin> dependency_name_set cls)
             \<and> source (build_error_message cls [f] e conn)
                 = (if f \<in> set (query_params conn) then Some (Param QUERY)
                    else case kwarg_definition fd of
                           Some (ParameterKwarg h c a) \<Rightarrow>
                             Some (Param (if str_truthy c then COOKIE
                                          else if str_truthy h then HEADER else QUERY))
                         | _ \<Rightarrow> None))
    \<and> (f = ''data''
         \<longrightarrow> key (build_error_message cls [f] e conn) = Some ''data''
             \<and> (is_client_error cls (build_error_message cls [f] e conn)
                  \<longleftrightarrow> ''data'' \<notin> dependency_name_set cls)
             \<and> source (build_error_message cls [f] e conn) = Some Body)
    \<and> ((\<forall>m \<in> set (replay_messages cls conn e
                        (collect_errors E cls (dec_hook E st conn) kwargs)).
            \<not> is_client_error cls m)
         \<longrightarrow> parse_values_from_connection_kwargs E st cls conn kwargs
               = Inl InternalServerException)"
proof -
  let ?h = "dec_hook E st conn"
  let ?ce = "collect_errors E cls ?h kwargs"
  let ?rm = "replay_messages cls conn e ?ce"
  let ?m = "build_error_message cls [f] e conn"
  have mf: "model_fields cls = parameters parsed"
    using create_fields(1) [OF cr] .
  have look: "map_of (model_fields cls) f = Some fd"
    using par dist mf by simp
  have mem: "f \<in> set (map fst (model_fields cls))"
    using par mf by force
  have c1: "\<exists>a. (fd_name fd, a, None) \<in> set (struct_fields cls)"
    using create_required [OF cr par req] .
  have c2: "filter (\<lambda>c. fst c = f) ?ce = [(f, str_KeyError f)]"
    unfolding collect_errors_def
    using collect_loop_omitted [OF om mem] dist mf by simp
  have "(f, str_KeyError f) \<in> set (filter (\<lambda>c. fst c = f) ?ce)"
    using c2 by simp
  then have inc: "(f, str_KeyError f) \<in> set ?ce" by simp
  have rk: "replay_keys f (str_KeyError f) = [f]"
    by (simp add: replay_keys_def ERR_RE_search_KeyError)
  have c3: "?m \<in> set ?rm"
  proof -
    have "(\<lambda>(field_name, exc). build_error_message cls (replay_keys field_name exc) e conn)
            (f, str_KeyError f) \<in> set ?rm"
      unfolding replay_messages_def using inc by (metis (no_types, lifting) image_eqI set_map)
    then show ?thesis using rk by simp
  qed
  have p: "parse_values_from_connection_kwargs E st cls conn kwargs
             = Inl (create_exception (WEBSOCKET E) cls conn ?rm)"
    using cv by (simp add: parse_values_from_connection_kwargs_def)
  have c4: "\<exists>d ms. parse_values_from_connection_kwargs E st cls conn kwargs
                        = Inl (ValidationException d ms) \<and> ?m \<in> set ms"
    if "is_client_error cls ?m"
  proof -
    have "?m \<in> set (filter (is_client_error cls) ?rm)" using that c3 by simp
    moreover from this have "filter (is_client_error cls) ?rm \<noteq> []"
      by (metis empty_iff list.set(1))
    ultimately show ?thesis
      unfolding p by (simp add: create_exception_def Let_def)
  qed
  have c5: "key ?m = Some f
             \<and> (is_client_error cls ?m \<longleftrightarrow> f \<notin> dependency_name_set cls)
             \<and> source ?m
                 = (if f \<in> set (query_params conn) then Some (Param QUERY)
                    else case kwarg_definition fd of
                           Some (ParameterKwarg h c a) \<Rightarrow>
                             Some (Param (if str_truthy c then COOKIE
                                          else if str_truthy h then HEADER else QUERY))
                         | _ \<Rightarrow> None)"
    if "\<not> startswith f ''data''"
    using build_not_data [OF that, of cls "[]" e conn] look
    by (simp add: is_client_error_def)
  have c5d: "key ?m = Some ''data''
             \<and> (is_client_error cls ?m \<longleftrightarrow> ''data'' \<notin> dependency_name_set cls)
             \<and> source ?m = Some Body"
    if "f = ''data''"
  proof -
    have r: "replace_with_empty ''data.'' (join ''.'' [''data'']) = ''data''"
      by (simp add: startswith_def)
    have "?m = \<lparr>key = Some ''data'', message = split_first '' - '' e, source = Some Body\<rparr>"
      unfolding that build_data [of cls "[]" e conn] r ..
    then show ?thesis by (simp add: is_client_error_def)
  qed
  have c6: "parse_values_from_connection_kwargs E st cls conn kwargs
               = Inl InternalServerException"
    if "\<forall>m \<in> set ?rm. \<not> is_client_error cls m"
  proof -
    have "filter (is_client_error cls) ?rm = []"
      using that by (simp add: filter_empty_conv)
    then show ?thesis unfolding p by (simp add: create_exception_def Let_def)
  qed
  show ?thesis
    using c1 c2 c3 c4 c5 c5d c6 by (intro conjI impI) blast+
qed

theorem omitted_required_field_witness:
  "\<exists>d ms. parse_values_from_connection_kwargs
             (failing_env (ValidationError ''Object missing required field `token`''))
             (\<lambda>t. None) example_model example_connection no_token_kwargs
           = Inl (ValidationException d ms)
         \<and> \<lparr>key = Some ''token'', message = ''Object missing required field `token`'',
              source = Some (Param COOKIE)\<rparr> \<in> set ms"
proof -
  let ?e = "''Object missing required field `token`''"
  let ?E = "failing_env (ValidationError ?e)"
  let ?fd = "FieldDefinition ''token'' (ClassT ''str'') [] False False
               (Some (ParameterKwarg None (Some ''token'') [])) False PNone"
  let ?m = "build_error_message example_model [''token''] ?e example_connection"
  have cr: "create ?E {''db''} (Some ''get_item'') False example_signature None (\<lambda>t. None)
              = Inr (example_model, (\<lambda>t. None))"
    by (rule create_example)
  have par: "(''token'', ?fd) \<in> set (parameters example_signature)"
    by (simp add: example_signature_def example_parameters_def)
  have dist: "distinct (map fst (parameters example_signature))"
    by (simp add: example_signature_def example_parameters_def)
  have req: "\<not> has_default ?fd" by simp
  have om: "map_of no_token_kwargs ''token'' = None"
    by (simp add: no_token_kwargs_def)
  have cv: "convert_struct ?E (dec_hook ?E (\<lambda>t. None) example_connection) no_token_kwargs
              example_model = Inl (ValidationError ?e)"
    by (simp add: failing_env_def)
  note T = omitted_required_field [OF cr par dist req om cv]
  note t4 = T [THEN conjunct2, THEN conjunct2, THEN conjunct2, THEN conjunct1]
  note t5 = T [THEN conjunct2, THEN conjunct2, THEN conjunct2, THEN conjunct2, THEN conjunct1]
  have n: "\<not> startswith ''token'' ''data''" by (simp add: startswith_def)
  have k: "key ?m = Some ''token''"
    using t5 [rule_format, OF n] by blast
  have ce: "is_client_error example_model ?m"
    using t5 [rule_format, OF n] by (simp add: example_model_def)
  have so: "source ?m = Some (Param COOKIE)"
    using t5 [rule_format, OF n] by (simp add: example_connection_def str_truthy_def)
  have me: "message ?m = ?e"
    by (simp add: message_build_error_message startswith_def)
  have "?m = \<lparr>key = Some ''token'', message = ?e, source = Some (Param COOKIE)\<rparr>"
    using k so me by (cases ?m) simp
  then show ?thesis using t4 [rule_format, OF ce] by simp
qed

text \<open>
  The claim as stated fails: a required parameter that is a dependency, left out of the
  kwargs, ends in the internal server exception, not in a client validation error.
\<close>

theorem omitted_dependency_counterexample:
  "(''db'', AnyT, None) \<in> set (struct_fields example_model)
   \<and> map_of no_db_kwargs ''db'' = None
   \<and> parse_values_from_connection_kwargs
        (failing_env (ValidationError ''Object missing required field `db`''))
        (\<lambda>t. None) example_model example_connection no_db_kwargs
       = Inl InternalServerException"
proof -
  let ?E = "failing_env (ValidationError ''Object missing required field `db`'')"
  have c: "collect_errors ?E example_model h no_db_kwargs = [(''db'', str_KeyError ''db'')]" for h
    by (simp add: collect_errors_def collect_field_def failing_env_def example_env_def
          example_model_def example_parameters_def no_db_kwargs_def annotations_def)
  have m: "replay_messages example_model example_connection e [(''db'', str_KeyError ''db'')]
           = [\<lparr>key = Some ''db'', message = split_first '' - '' e, source = None\<rparr>]" for e
    by (simp add: replay_messages_def replay_keys_def ERR_RE_search_KeyError
          build_error_message_def startswith_def example_connection_def example_model_def
          example_parameters_def plain_field_def)
  have p: "parse_values_from_connection_kwargs ?E (\<lambda>t. None) example_model example_connection
             no_db_kwargs = Inl InternalServerException"
  proof -
    have cv: "convert_struct ?E h no_db_kwargs example_model
                = Inl (ValidationError ''Object missing required field `db`'')" for h
      by (simp add: failing_env_def)
    have "parse_values_from_connection_kwargs ?E (\<lambda>t. None) example_model example_connection
             no_db_kwargs
          = Inl (create_exception (WEBSOCKET ?E) example_model example_connection
                   [\<lparr>key = Some ''db'',
                     message = split_first '' - '' ''Object missing required field `db`'',
                     source = None\<rparr>])"
      by (simp add: parse_values_from_connection_kwargs_def cv c m)
    then show ?thesis
      by (simp add: create_exception_def is_client_error_def example_model_def)
  qed
  show ?thesis
    using p by (simp add: example_model_def no_db_kwargs_def)
qed

end
